theory Spec2Isabelle
  imports Complex_Main "HOL-Library.Sublist" "HOL-Library.Multiset"
begin

section \<open>JavaScript values used by the server\<close>

text \<open>
  Strings are lists of code units.  An exception is a value: \<open>Error\<close> is what the code
  throws itself (\<open>throw new Error(msg)\<close>), \<open>TypeError\<close> is what the runtime throws when
  a property of \<open>undefined\<close> is read or a non-function is called, \<open>McpError\<close> is the
  protocol's error with its code.
\<close>

datatype ErrorCode = MethodNotFound | InternalError

datatype js_error = Error string | TypeError string | McpError ErrorCode string

fun message :: "js_error \<Rightarrow> string" where
  "message (Error m) = m"
| "message (TypeError m) = m"
| "message (McpError c m) = m"

text \<open>\<open>s.startsWith(p)\<close>\<close>

definition startsWith :: "string \<Rightarrow> string \<Rightarrow> bool" where
  "startsWith s p = (take (length p) s = p)"

text \<open>\<open>xs.join(sep)\<close>\<close>

fun join :: "string \<Rightarrow> string list \<Rightarrow> string" where
  "join sep [] = []"
| "join sep [x] = x"
| "join sep (x # y # ys) = x @ sep @ join sep (y # ys)"

text \<open>
  A property read \<open>obj[key]\<close> on an object literal.  The literal's own keys come first;
  a key it does not have is looked up on \<open>Object.prototype\<close>, whose members are all
  truthy (functions, and the prototype object itself for \<open>__proto__\<close>); any other key
  reads \<open>undefined\<close>.  An inherited member is kept as the text a template literal
  renders for it.
\<close>

datatype 'a js_property = OwnProperty 'a | InheritedProperty string | UndefinedProperty

definition objectPrototypeKeys :: "string list" where
  "objectPrototypeKeys =
     [''constructor'', ''__defineGetter__'', ''__defineSetter__'', ''hasOwnProperty'',
      ''__lookupGetter__'', ''__lookupSetter__'', ''isPrototypeOf'',
      ''propertyIsEnumerable'', ''toString'', ''valueOf'', ''__proto__'',
      ''toLocaleString'']"

definition inheritedText :: "string \<Rightarrow> string" where
  "inheritedText key =
     (if key = ''__proto__'' then ''[object Object]''
      else if key = ''constructor'' then ''function Object() { [native code] }''
      else ''function '' @ key @ ''() { [native code] }'')"

definition getProperty :: "(string \<times> 'a) list \<Rightarrow> string \<Rightarrow> 'a js_property" where
  "getProperty obj key =
     (case map_of obj key of
        Some v \<Rightarrow> OwnProperty v
      | None \<Rightarrow>
          if key \<in> set objectPrototypeKeys then InheritedProperty (inheritedText key)
          else UndefinedProperty)"

text \<open>\<open>Object.keys(obj)\<close>\<close>

definition keys :: "(string \<times> 'a) list \<Rightarrow> string list" where
  "keys obj = map fst obj"

section \<open>utils: the static tables\<close>

definition ROOM_IDS :: "(string \<times> string) list" where
  "ROOM_IDS =
     [(''valdi-sdg-h100'', ''016d43f2-d5c0-4a78-913c-a0bc91e245ed''),
      (''colo-he-nucs'', ''2421c260-1423-4f1a-bb47-ad5dc9e765fd''),
      (''colo-he-proxmox2'', ''2d177350-fe36-4f06-a211-364ba9b02abe''),
      (''evergreen-rtx-4090'', ''36629903-e073-4df9-836f-2e1512b4871e''),
      (''cato-v100'', ''72789f00-8cc4-48e3-90a0-3ea87170eb6a''),
      (''all-nodes'', ''93e19508-b494-4999-957f-802b48a2ba0d''),
      (''valdi-wdc-h100'', ''b62ef6bd-2007-4a7a-a633-b8b62caf1e9e''),
      (''colo-he-proxmox'', ''bbf6d7ac-faf7-4037-9b44-db1e2404bab1''),
      (''nebulablock-dfw-4090'', ''fb090f13-2e25-494f-960a-04a751f7bd0e''),
      (''coreweave-sandbox'', ''ffc6dce8-079f-4dc4-9b34-2a6f1e95a467'')]"

definition METRIC_CATEGORIES :: "(string \<times> string list) list" where
  "METRIC_CATEGORIES =
     [(''network'', [''net.'', ''ip.'', ''ipv4.'', ''ipv6.'', ''system.net'', ''netfilter.'',
                     ''k8s.cgroup.net_'', ''netdata.network'']),
      (''system'', [''system.cpu'', ''system.ram'', ''system.load'', ''system.processes'',
                    ''system.entropy'', ''system.uptime'', ''system.interrupts'']),
      (''disk'', [''disk.'', ''system.io'']),
      (''memory'', [''mem.'', ''system.pgpgio'']),
      (''docker'', [''docker.'', ''cgroup.'']),
      (''kubernetes'', [''k8s.'']),
      (''applications'', [''app.'', ''user.'', ''usergroup.'']),
      (''sensors'', [''sensors.'', ''system.hw.sensor'']),
      (''nvidia'', [''nvidia_smi.'']),
      (''netdata_internal'', [''netdata.''])]"

section \<open>utils: filterContextsByCategory\<close>

text \<open>
  \<^verbatim>\<open>
  const prefixes = METRIC_CATEGORIES[category];
  if (!prefixes) throw new Error(`Unknown category: ${category}. Available: ...`);
  return contexts.filter(context => prefixes.some(prefix => context.startsWith(prefix)));
  \<close>
  For a key inherited from \<open>Object.prototype\<close> the guard passes and the first call
  of the filter's callback fails on \<open>prefixes.some\<close>; with no context there is no call.
\<close>

definition filterContextsByCategory :: "string list \<Rightarrow> string \<Rightarrow> js_error + string list" where
  "filterContextsByCategory contexts category =
     (case getProperty METRIC_CATEGORIES category of
        UndefinedProperty \<Rightarrow>
          Inl (Error (''Unknown category: '' @ category @ ''. Available: ''
                      @ join '', '' (keys METRIC_CATEGORIES)))
      | InheritedProperty _ \<Rightarrow>
          if contexts = [] then Inr [] else Inl (TypeError ''prefixes.some is not a function'')
      | OwnProperty pfxs \<Rightarrow>
          Inr (filter (\<lambda>c. list_ex (\<lambda>p. startsWith c p) pfxs) contexts))"

text \<open>
  A template literal renders an integer in decimal: \<open>`${n}`\<close>.  This is the text the
  runtime writes for the integers of magnitude below \<open>2^53\<close>; beyond, not every integer
  is a number of the runtime, and from \<open>10^21\<close> on a number is written with an exponent.
  The integers rendered below are lengths and counts, and the default \<open>-300\<close>.
\<close>

definition decimalDigits :: string where
  "decimalDigits = ''0123456789''"

function showNat :: "nat \<Rightarrow> string" where
  "showNat n = (if n < 10 then [decimalDigits ! n] else showNat (n div 10) @ [decimalDigits ! (n mod 10)])"
  by pat_completeness auto
termination
  by (relation "measure id") auto

declare showNat.simps [simp del]

definition showInt :: "int \<Rightarrow> string" where
  "showInt i = (if i < 0 then ''-'' @ showNat (nat (- i)) else showNat (nat i))"

text \<open>
  \<open>xs.slice(start, end)\<close> for integer arguments: a negative index counts from the end,
  both are clamped to the list, and an end before the start gives the empty list.
\<close>

definition jsSlice :: "'a list \<Rightarrow> int \<Rightarrow> int \<Rightarrow> 'a list" where
  "jsSlice xs start fin =
     (let len = int (length xs);
          k = (if start < 0 then max (len + start) 0 else min start len);
          final = (if fin < 0 then max (len + fin) 0 else min fin len)
      in take (nat (final - k)) (drop (nat k) xs))"

section \<open>HTTP requests\<close>

text \<open>
  \<open>await axios.get(url, ...)\<close>.  A server is the outside world: a function from the URL
  requested to the outcome, either the message of the failure (\<open>Inl\<close>) or the body of the
  reply.  The outcome comes with the record of the request, the URL.  A function below
  whose requests are of interest returns them with its value, in the order they are
  made; they are recorded here and nowhere else.
\<close>

definition axiosGet :: "(string \<Rightarrow> string + 'a) \<Rightarrow> string \<Rightarrow> (string + 'a) \<times> string list" where
  "axiosGet server url = (server url, [url])"

section \<open>JavaScript numbers\<close>

text \<open>
  A number is \<open>NaN\<close>, an infinity or a finite value.  A finite double is idealised as
  the rational it denotes: rounding to binary64 and the sign of zero are not modelled.
  The properties below rest on the \<open>NaN\<close> cases only, which are exact.
\<close>

datatype jsnum = NaN | PosInf | NegInf | Fin rat

text \<open>\<open>x / y\<close>\<close>

fun jsDiv :: "jsnum \<Rightarrow> jsnum \<Rightarrow> jsnum" where
  "jsDiv NaN y = NaN"
| "jsDiv x NaN = NaN"
| "jsDiv (Fin a) (Fin b) =
     (if b = 0 then (if a = 0 then NaN else if 0 < a then PosInf else NegInf)
      else Fin (a / b))"
| "jsDiv (Fin a) y = Fin 0"
| "jsDiv PosInf (Fin b) = (if 0 \<le> b then PosInf else NegInf)"
| "jsDiv NegInf (Fin b) = (if 0 \<le> b then NegInf else PosInf)"
| "jsDiv x y = NaN"

text \<open>\<open>x * y\<close>\<close>

fun jsSign :: "jsnum \<Rightarrow> int" where
  "jsSign NaN = 0"
| "jsSign PosInf = 1"
| "jsSign NegInf = -1"
| "jsSign (Fin a) = sgn \<lfloor>sgn a\<rfloor>"

fun jsMul :: "jsnum \<Rightarrow> jsnum \<Rightarrow> jsnum" where
  "jsMul NaN y = NaN"
| "jsMul x NaN = NaN"
| "jsMul (Fin a) (Fin b) = Fin (a * b)"
| "jsMul x y =
     (if jsSign x * jsSign y = 0 then NaN
      else if 0 < jsSign x * jsSign y then PosInf else NegInf)"

text \<open>
  \<open>x.toFixed(1)\<close>: the decimal with one fraction digit nearest to \<open>x\<close>, the larger one
  on a tie, with a sign for a negative \<open>x\<close> (below \<open>10^21\<close> in magnitude; beyond that the
  runtime switches to exponent notation, which is not modelled).
\<close>

definition toFixed1 :: "jsnum \<Rightarrow> string" where
  "toFixed1 x =
     (case x of
        NaN \<Rightarrow> ''NaN''
      | PosInf \<Rightarrow> ''Infinity''
      | NegInf \<Rightarrow> ''-Infinity''
      | Fin q \<Rightarrow>
          (let n = nat \<lfloor>\<bar>q\<bar> * 10 + 1 / 2\<rfloor>
           in (if q < 0 then ''-'' else '''') @ showNat (n div 10) @ ''.'' @ showNat (n mod 10)))"

text \<open>
  \<open>Number(s)\<close> for a string, after the grammar of numeric string literals: white space
  around the literal is dropped; the empty string is 0; \<open>0x\<close>, \<open>0o\<close> and \<open>0b\<close> introduce
  unsigned integers in base 16, 8 and 2; otherwise an optional sign is followed by
  \<open>Infinity\<close> or by decimal digits with an optional fraction and exponent.  Any other
  string is \<open>NaN\<close>.  White space is taken among the code units up to 255.
\<close>

definition isWhiteSpace :: "char \<Rightarrow> bool" where
  "isWhiteSpace c =
     (c \<in> set [CHR 0x09, CHR 0x0A, CHR 0x0B, CHR 0x0C, CHR 0x0D, CHR 0x20, CHR 0xA0])"

definition trim :: "string \<Rightarrow> string" where
  "trim s = rev (dropWhile isWhiteSpace (rev (dropWhile isWhiteSpace s)))"

fun charIndex :: "char \<Rightarrow> string \<Rightarrow> nat option" where
  "charIndex c [] = None"
| "charIndex c (d # ds) = (if c = d then Some 0 else map_option Suc (charIndex c ds))"

definition digitValue :: "nat \<Rightarrow> char \<Rightarrow> nat option" where
  "digitValue base c =
     (case charIndex c ''0123456789abcdef'' of
        Some v \<Rightarrow> if v < base then Some v else None
      | None \<Rightarrow>
          (case charIndex c ''ABCDEF'' of
             Some v \<Rightarrow> if v + 10 < base then Some (v + 10) else None
           | None \<Rightarrow> None))"

fun digitsValue :: "nat \<Rightarrow> string \<Rightarrow> nat \<Rightarrow> nat option" where
  "digitsValue base [] acc = Some acc"
| "digitsValue base (c # cs) acc =
     (case digitValue base c of
        None \<Rightarrow> None
      | Some v \<Rightarrow> digitsValue base cs (acc * base + v))"

definition parseDigits :: "nat \<Rightarrow> string \<Rightarrow> nat option" where
  "parseDigits base s = (if s = [] then None else digitsValue base s 0)"

definition isDigit :: "char \<Rightarrow> bool" where
  "isDigit c = (c \<in> set ''0123456789'')"

definition parseExponent :: "string \<Rightarrow> int option" where
  "parseExponent s =
     (case s of
        [] \<Rightarrow> Some 0
      | c # r \<Rightarrow>
          if c = CHR ''e'' \<or> c = CHR ''E'' then
            (case r of
               [] \<Rightarrow> None
             | d # ds \<Rightarrow>
                 if d = CHR ''-'' then map_option (\<lambda>n. - int n) (parseDigits 10 ds)
                 else if d = CHR ''+'' then map_option int (parseDigits 10 ds)
                 else map_option int (parseDigits 10 r))
          else None)"

definition pow10 :: "int \<Rightarrow> rat" where
  "pow10 e = (if 0 \<le> e then 10 ^ nat e else 1 / 10 ^ nat (- e))"

definition parseUnsignedDecimal :: "string \<Rightarrow> rat option" where
  "parseUnsignedDecimal u =
     (let ip = takeWhile isDigit u;
          r1 = dropWhile isDigit u;
          fp = (case r1 of [] \<Rightarrow> [] | c # r \<Rightarrow> if c = CHR ''.'' then takeWhile isDigit r else []);
          r2 = (case r1 of [] \<Rightarrow> [] | c # r \<Rightarrow> if c = CHR ''.'' then dropWhile isDigit r else r1)
      in if ip = [] \<and> fp = [] then None
         else (case (digitsValue 10 (ip @ fp) 0, parseExponent r2) of
                 (Some m, Some e) \<Rightarrow> Some (of_nat m * pow10 (e - int (length fp)))
               | _ \<Rightarrow> None))"

definition parseDecimal :: "string \<Rightarrow> jsnum" where
  "parseDecimal t =
     (let neg = (t \<noteq> [] \<and> hd t = CHR ''-'');
          u = (if t \<noteq> [] \<and> (hd t = CHR ''-'' \<or> hd t = CHR ''+'') then tl t else t)
      in if u = ''Infinity'' then (if neg then NegInf else PosInf)
         else (case parseUnsignedDecimal u of
                 None \<Rightarrow> NaN
               | Some q \<Rightarrow> Fin (if neg then - q else q)))"

definition stringToNumber :: "string \<Rightarrow> jsnum" where
  "stringToNumber s =
     (let t = trim s
      in if t = [] then Fin 0
         else if take 2 t = ''0x'' \<or> take 2 t = ''0X'' then
           (case parseDigits 16 (drop 2 t) of Some n \<Rightarrow> Fin (of_nat n) | None \<Rightarrow> NaN)
         else if take 2 t = ''0o'' \<or> take 2 t = ''0O'' then
           (case parseDigits 8 (drop 2 t) of Some n \<Rightarrow> Fin (of_nat n) | None \<Rightarrow> NaN)
         else if take 2 t = ''0b'' \<or> take 2 t = ''0B'' then
           (case parseDigits 2 (drop 2 t) of Some n \<Rightarrow> Fin (of_nat n) | None \<Rightarrow> NaN)
         else parseDecimal t)"

section \<open>utils: configuration constants\<close>

text \<open>\<open>config.netdata.sandboxHost\<close> and \<open>config.netdata.rateLimitDelay\<close> are literals.\<close>

definition sandboxHost :: string where
  "sandboxHost = ''216.153.63.25''"

definition rateLimitDelay :: nat where
  "rateLimitDelay = 100"

section \<open>utils: queryAgentMetric\<close>

text \<open>
  A value read from the body of a reply: the member is absent (\<open>undefined\<close>), or it is
  any value of JSON.  The rows of an array are opaque and kept as their text; an object
  is opaque.
\<close>

datatype js_value =
    JUndefined
  | JNull
  | JBoolean bool
  | JNumber jsnum
  | JString string
  | JArray "string list"
  | JObject

text \<open>
  Truthiness of a value: \<open>undefined\<close>, \<open>null\<close>, \<open>false\<close>, zero, \<open>NaN\<close> and the empty string
  are falsy, every other value is truthy (also the empty array).
\<close>

fun truthyValue :: "js_value \<Rightarrow> bool" where
  "truthyValue JUndefined = False"
| "truthyValue JNull = False"
| "truthyValue (JBoolean b) = b"
| "truthyValue (JNumber n) = (n \<noteq> NaN \<and> n \<noteq> Fin 0)"
| "truthyValue (JString s) = (s \<noteq> [])"
| "truthyValue (JArray rows) = True"
| "truthyValue JObject = True"

text \<open>
  The agent is a server whose reply has the members \<open>data\<close> and \<open>labels\<close>.  \<open>Inl\<close> is the
  message of the error that the \<open>try\<close> block of \<open>queryAgentMetric\<close> catches: the one
  \<open>axios.get\<close> throws, or the one of the read \<open>response.data.data\<close> when the body is
  \<open>null\<close>.  \<open>reply_labels\<close> is \<open>None\<close> when \<open>labels\<close> is absent or falsy.
\<close>

record agent_data =
  reply_data :: js_value
  reply_labels :: "string list option"

text \<open>
  The interface \<open>MetricResult\<close>; its field \<open>context\<close> is \<open>context_id\<close> here.  The interface
  declares \<open>active: boolean\<close>, but the field holds whatever \<open>hasData\<close> is, so it is a
  value.
\<close>

record MetricResult =
  context_id :: string
  active :: js_value
  dataPoints :: nat
  labels :: "string list"
  lastValue :: "string option"
  error :: "string option"

text \<open>
  \<^verbatim>\<open>
  const url = `http://${config.netdata.sandboxHost}:19999/api/v1/data?context=${context}&after=${afterSeconds}&before=0`;
  \<close>
  \<open>afterSeconds\<close> is taken to be an integer, and the text is the one the runtime writes
  when its magnitude is below \<open>2^53\<close>; every caller leaves it at the default \<open>-300\<close>.
\<close>

definition agentUrl :: "string \<Rightarrow> int \<Rightarrow> string" where
  "agentUrl c afterSeconds =
     ''http://'' @ sandboxHost @ '':19999/api/v1/data?context='' @ c
       @ ''&after='' @ showInt afterSeconds @ ''&before=0''"

text \<open>
  \<open>response.data.data && Array.isArray(response.data.data) && response.data.data.length > 0\<close>:
  the value of a chain of \<open>&&\<close> is its first falsy operand, or the last operand.  So it is
  the \<open>data\<close> member itself when that is falsy, \<open>false\<close> when it is truthy and not an
  array, and otherwise whether the array has a row.
\<close>

definition hasDataOf :: "js_value \<Rightarrow> js_value" where
  "hasDataOf d =
     (if \<not> truthyValue d then d
      else (case d of JArray rows \<Rightarrow> JBoolean (0 < length rows) | _ \<Rightarrow> JBoolean False))"

text \<open>\<open>response.data.data.length\<close> and \<open>response.data.data[0]\<close> are read of an array only.\<close>

fun rowsOf :: "js_value \<Rightarrow> string list" where
  "rowsOf (JArray rows) = rows"
| "rowsOf v = []"

text \<open>
  \<^verbatim>\<open>
  try {
    const response = await axios.get(url, { timeout: ... });
    const hasData = response.data.data && Array.isArray(response.data.data) && response.data.data.length > 0;
    return { context, active: hasData, dataPoints: hasData ? response.data.data.length : 0,
             labels: response.data.labels || [], lastValue: hasData ? response.data.data[0] : null,
             error: null };
  } catch (error) {
    return { context, active: false, dataPoints: 0, labels: [], lastValue: null, error: error.message };
  }
  \<close>
  The result comes with the URLs requested.
\<close>

definition queryAgentMetric ::
  "(string \<Rightarrow> string + agent_data) \<Rightarrow> string \<Rightarrow> int \<Rightarrow> MetricResult \<times> string list" where
  "queryAgentMetric agent c afterSeconds =
     (let url = agentUrl c afterSeconds;
          (outcome, calls) = axiosGet agent url
      in (case outcome of
            Inr response \<Rightarrow>
              (let hasData = hasDataOf (reply_data response)
               in \<lparr> context_id = c, active = hasData,
                    dataPoints = (if truthyValue hasData
                                  then length (rowsOf (reply_data response)) else 0),
                    labels = (case reply_labels response of Some l \<Rightarrow> l | None \<Rightarrow> []),
                    lastValue = (if truthyValue hasData
                                 then Some (hd (rowsOf (reply_data response))) else None),
                    error = None \<rparr>)
          | Inl msg \<Rightarrow>
              \<lparr> context_id = c, active = JBoolean False, dataPoints = 0, labels = [],
                lastValue = None, error = Some msg \<rparr>,
          calls))"

section \<open>utils: testMetricsInBatches\<close>

text \<open>
  The interface \<open>MetricTestResults\<close>: its lists \<open>active\<close>, \<open>inactive\<close> and \<open>errors\<close> are
  \<open>activeList\<close>, \<open>inactiveList\<close> and \<open>errorsList\<close> here, and the field \<open>total\<close> of its
  summary is \<open>total'\<close>.
\<close>

record summary =
  total' :: nat
  tested :: nat
  activeCount :: nat
  inactiveCount :: nat
  errorCount :: nat

record MetricTestResults =
  activeList :: "MetricResult list"
  inactiveList :: "MetricResult list"
  errorsList :: "MetricResult list"
  summary :: summary

text \<open>
  What the loop has done so far: the results it returns, and its effects in order:
  the URLs that the calls of \<open>queryAgentMetric\<close> have requested, one list per batch (the
  requests of one \<open>Promise.all\<close>), and the pauses (\<open>setTimeout\<close>, in milliseconds).
\<close>

record probe_state =
  results :: MetricTestResults
  requested :: "string list list"
  pauses :: "nat list"

text \<open>\<open>if (result.error)\<close> tests truthiness: \<open>null\<close> and the empty string are falsy.\<close>

definition truthy :: "string option \<Rightarrow> bool" where
  "truthy v = (case v of None \<Rightarrow> False | Some s \<Rightarrow> s \<noteq> [])"

text \<open>
  The body of the inner loop:
  \<^verbatim>\<open>
  results.summary.tested++;
  if (result.error) { results.errors.push(result); results.summary.errorCount++; }
  else if (result.active) { results.active.push(result); results.summary.activeCount++; }
  else { results.inactive.push(result); results.summary.inactiveCount++; }
  \<close>
\<close>

definition categorize :: "MetricTestResults \<Rightarrow> MetricResult \<Rightarrow> MetricTestResults" where
  "categorize res r =
     (let res1 = res\<lparr> summary := (summary res)\<lparr> tested := tested (summary res) + 1 \<rparr> \<rparr>
      in if truthy (error r) then
           res1\<lparr> errorsList := errorsList res1 @ [r],
                 summary := (summary res1)\<lparr> errorCount := errorCount (summary res1) + 1 \<rparr> \<rparr>
         else if truthyValue (active r) then
           res1\<lparr> activeList := activeList res1 @ [r],
                 summary := (summary res1)\<lparr> activeCount := activeCount (summary res1) + 1 \<rparr> \<rparr>
         else
           res1\<lparr> inactiveList := inactiveList res1 @ [r],
                 summary := (summary res1)\<lparr> inactiveCount := inactiveCount (summary res1) + 1 \<rparr> \<rparr>)"

text \<open>
  One iteration of the outer loop at index \<open>i\<close>:
  \<^verbatim>\<open>
  const batch = contexts.slice(i, i + batchSize);
  const batchResults = await Promise.all(batch.map(context => queryAgentMetric(context)));
  for (const result of batchResults) { ... }
  if (i + batchSize < contexts.length) await new Promise(resolve => setTimeout(resolve, delay));
  \<close>
  \<open>queryAgentMetric(context)\<close> takes the default \<open>afterSeconds = -300\<close>.  The calls are
  started in the order of the batch, and each makes its request when it is started.
\<close>

definition batchStep ::
  "(string \<Rightarrow> string + agent_data) \<Rightarrow> string list \<Rightarrow> int \<Rightarrow> int \<Rightarrow> probe_state \<Rightarrow> probe_state" where
  "batchStep agent contexts batchSize i st =
     (let batch = jsSlice contexts i (i + batchSize);
          batchCalls = map (\<lambda>c. queryAgentMetric agent c (-300)) batch;
          batchResults = map fst batchCalls
      in \<lparr> results = foldl categorize (results st) batchResults,
           requested = requested st @ [concat (map snd batchCalls)],
           pauses = (if i + batchSize < int (length contexts)
                     then pauses st @ [rateLimitDelay] else pauses st) \<rparr>)"

text \<open>
  \<open>for (let i = 0; i < contexts.length; i += batchSize)\<close>.  Nothing makes \<open>i\<close> grow when
  \<open>batchSize\<close> is not positive, so the loop may run forever: not returning is \<open>None\<close>.
\<close>

partial_function (option) testLoop ::
  "(string \<Rightarrow> string + agent_data) \<Rightarrow> string list \<Rightarrow> int \<Rightarrow> int \<Rightarrow> probe_state \<Rightarrow> probe_state option" where
  "testLoop agent contexts batchSize i st =
     (if i < int (length contexts)
      then testLoop agent contexts batchSize (i + batchSize) (batchStep agent contexts batchSize i st)
      else Some st)"

definition initialResults :: "string list \<Rightarrow> MetricTestResults" where
  "initialResults contexts =
     \<lparr> activeList = [], inactiveList = [], errorsList = [],
       summary = \<lparr> total' = length contexts, tested = 0, activeCount = 0,
                   inactiveCount = 0, errorCount = 0 \<rparr> \<rparr>"

definition testMetricsInBatches ::
  "(string \<Rightarrow> string + agent_data) \<Rightarrow> string list \<Rightarrow> int \<Rightarrow> probe_state option" where
  "testMetricsInBatches agent contexts batchSize =
     testLoop agent contexts batchSize 0
       \<lparr> results = initialResults contexts, requested = [], pauses = [] \<rparr>"

declare testLoop.simps [code]

text \<open>
  What "consecutive chunks of size \<open>n\<close>" means for a list of batches \<open>bs\<close> of a list
  \<open>xs\<close>: the batches concatenated are \<open>xs\<close>, none is empty or longer than \<open>n\<close>, and every
  batch but the last has exactly \<open>n\<close> elements.
\<close>

definition chunked :: "nat \<Rightarrow> 'a list \<Rightarrow> 'a list list \<Rightarrow> bool" where
  "chunked n xs bs =
     (concat bs = xs
      \<and> (\<forall>b \<in> set bs. 0 < length b \<and> length b \<le> n)
      \<and> (\<forall>b \<in> set (butlast bs). length b = n))"

text \<open>
  Sample agents: one that answers two contexts, and one whose replies have no \<open>data\<close>
  member (the body \<open>{"labels": ["time"]}\<close>).
\<close>

definition sampleAgent :: "string \<Rightarrow> string + agent_data" where
  "sampleAgent url =
     (if url = ''http://216.153.63.25:19999/api/v1/data?context=net.eth0&after=-300&before=0''
      then Inr \<lparr> reply_data = JArray [''[1700000000, 12.5]'', ''[1699999999, 11]''],
                 reply_labels = Some [''time'', ''received''] \<rparr>
      else if url = ''http://216.153.63.25:19999/api/v1/data?context=disk.io&after=-300&before=0''
      then Inr \<lparr> reply_data = JArray [], reply_labels = Some [''time''] \<rparr>
      else Inl ''Request failed with status code 404'')"

definition bareAgent :: "string \<Rightarrow> string + agent_data" where
  "bareAgent url = Inr \<lparr> reply_data = JUndefined, reply_labels = Some [''time''] \<rparr>"

section \<open>The outside world of the NetData service\<close>

text \<open>
  \<open>config.netdata\<close> as read from the environment: the API token may be missing, the base
  URL and the space identifier have defaults.
\<close>

record cloud_config =
  apiToken :: "string option"
  cloudBaseUrl :: string
  spaceId :: string

text \<open>
  The replies of the cloud API, with the fields the code reads.  A counter that is
  absent reads \<open>undefined\<close>; counters are counts.
\<close>

record alarm_counter =
  counter_warning :: "nat option"
  counter_critical :: "nat option"

record room_alarm_entry =
  entry_roomID :: string
  alarmCounter :: "alarm_counter option"
  unreachableCount :: "nat option"

record alarms_data =
  alarm_results :: "room_alarm_entry list option"

record cloud_room =
  cloud_room_id :: string
  cloud_room_name :: string

record cloud_node =
  node_name :: string
  alarmCounters :: "alarm_counter option"

text \<open>The reply of an agent's \<open>/api/v1/alarms\<close>: alarms by key, in the order of the object.\<close>

record agent_alarm =
  alarm_status :: "string option"
  alarm_name :: "string option"
  alarm_info :: "string option"
  alarm_chart :: "string option"

record agent_alarms =
  alarms :: "(string \<times> agent_alarm) list option"

text \<open>
  The world: the configuration, the outcome of an HTTP GET by URL for every kind of
  reply (\<open>Inl\<close> is the message of the failure: \<open>error.response?.data?.message ||
  error.message\<close> for a cloud request, \<open>error.message\<close> for an agent), which of two failing
  parallel requests fails first, and the two operations of the runtime on the text of
  a context list: \<open>JSON.stringify(contexts, null, 2)\<close>, and the extraction
  \<open>JSON.parse('[' + text.match(/\[(.*)\]/s)[1] + ']')\<close>, which fails when there is no
  match or the match is not JSON.
\<close>

record world =
  config :: cloud_config
  cloudContexts :: "string \<Rightarrow> string + string list"
  cloudNodes :: "string \<Rightarrow> string + cloud_node list"
  cloudAlarms :: "string \<Rightarrow> string + alarms_data"
  cloudRooms :: "string \<Rightarrow> string + cloud_room list"
  roomsRejectFirst :: bool
  agentData :: "string \<Rightarrow> string + agent_data"
  agentAlarms :: "string \<Rightarrow> string + agent_alarms"
  stringifyContexts :: "string list \<Rightarrow> string"
  stringifyNodes :: "cloud_node list \<Rightarrow> string"
  parseContexts :: "string \<Rightarrow> js_error + string list"

section \<open>utils: makeCloudRequest\<close>

text \<open>
  \<^verbatim>\<open>
  if (!config.netdata.apiToken) throw new Error('NetData API token is not configured');
  try { const response = await axios.get(`${cloudBaseUrl}/api/v2${endpoint}`, ...); return response.data; }
  catch (error) { throw new Error(`NetData Cloud API error: ${error.response?.data?.message || error.message}`); }
  \<close>
  The result comes with the URLs requested: none when the token is missing.
\<close>

definition makeCloudRequest ::
  "cloud_config \<Rightarrow> (string \<Rightarrow> string + 'a) \<Rightarrow> string \<Rightarrow> (js_error + 'a) \<times> string list" where
  "makeCloudRequest cfg cloud endpoint =
     (if \<not> truthy (apiToken cfg) then (Inl (Error ''NetData API token is not configured''), [])
      else
        (let (outcome, calls) = axiosGet cloud (cloudBaseUrl cfg @ ''/api/v2'' @ endpoint)
         in (case outcome of
               Inr d \<Rightarrow> Inr d
             | Inl m \<Rightarrow> Inl (Error (''NetData Cloud API error: '' @ m)),
             calls)))"

section \<open>services/netdata: tool arguments and responses\<close>

text \<open>
  The arguments of a tool call: each named argument is absent or has the type its
  input schema declares (\<open>sample_size\<close> an integer); the field for the argument
  \<open>room_name\<close> is \<open>arg_room_name\<close>, and so on.  A call without arguments passes
  \<open>undefined\<close>, which is \<open>None\<close>; \<open>const { room_name } = args || {}\<close> then reads every
  argument as absent.
\<close>

record tool_args =
  arg_room_name :: "string option"
  arg_category :: "string option"
  arg_sample_size :: "int option"
  arg_query :: "string option"
  arg_page_name :: "string option"

definition noArgs :: tool_args where
  "noArgs = \<lparr> arg_room_name = None, arg_category = None, arg_sample_size = None,
              arg_query = None, arg_page_name = None \<rparr>"

definition argsOrEmpty :: "tool_args option \<Rightarrow> tool_args" where
  "argsOrEmpty args = (case args of None \<Rightarrow> noArgs | Some a \<Rightarrow> a)"

text \<open>One entry of \<open>categoryResults\<close> in \<open>getActiveMetricsSummary\<close>.\<close>

record category_stats =
  totalAvailable :: nat
  stat_tested :: nat
  stat_active :: nat
  activeRate :: string
  stat_error :: "string option"

text \<open>
  The text of a response.  The two activity reports are fixed templates over the values
  they interpolate (and the current time); a report is kept as these values: the room
  name, the category and the results for the category report; the room name, the sample
  size, the number of contexts, \<open>categoryResults\<close>, \<open>totalTested\<close>, \<open>totalActive\<close> and
  \<open>overallActiveRate\<close> for the summary.
\<close>

datatype body =
    Text string
  | CategoryActivityReport string string MetricTestResults
  | ActiveMetricsSummaryReport string int nat "(string \<times> category_stats) list" nat nat string

record ToolResponse =
  content :: "body list"

definition textResponse :: "string \<Rightarrow> ToolResponse" where
  "textResponse t = \<lparr> content = [Text t] \<rparr>"

text \<open>\<open>contextsResponse.content[0].text\<close>, read from a response that holds a text.\<close>

definition contentText :: "ToolResponse \<Rightarrow> string" where
  "contentText r = (case content r of Text t # _ \<Rightarrow> t | _ \<Rightarrow> [])"

definition dquote :: string where
  "dquote = [CHR 0x22]"

definition newline :: string where
  "newline = [CHR 0x0A]"

section \<open>services/netdata: getRoomContexts and getRoomNodes\<close>

text \<open>The value of \<open>`${roomId}`\<close> once \<open>ROOM_IDS[room_name]\<close> is truthy.\<close>

fun propertyText :: "string js_property \<Rightarrow> string" where
  "propertyText (OwnProperty v) = v"
| "propertyText (InheritedProperty t) = t"
| "propertyText UndefinedProperty = ''undefined''"

text \<open>
  \<^verbatim>\<open>
  const { room_name } = args || {};
  try {
    if (!room_name) return text("Error: room_name parameter is required");
    const roomId = ROOM_IDS[room_name];
    if (!roomId) return text(`Room "${room_name}" not found. Available rooms: ${Object.keys(ROOM_IDS).join(', ')}`);
    const contextsData = await makeCloudRequest(`/spaces/${spaceId}/rooms/${roomId}/contexts`);
    const contexts = contextsData.results || contextsData;
    return text(`Room Contexts for "${room_name}" (${contexts.length} contexts found):\n${JSON.stringify(contexts, null, 2)}`);
  } catch (error) { return text(`Error getting room contexts: ${error.message}`); }
  \<close>
  The reply is the array of contexts, under \<open>results\<close> or bare.  Every room
  identifier of the table is a non-empty string, so \<open>!roomId\<close> holds exactly when the
  property is undefined.  A handler returns its response with the URLs it requested.
\<close>

definition getRoomContexts :: "world \<Rightarrow> tool_args option \<Rightarrow> ToolResponse \<times> string list" where
  "getRoomContexts w args =
     (let name = arg_room_name (argsOrEmpty args)
      in if \<not> truthy name then (textResponse ''Error: room_name parameter is required'', [])
         else
           (case getProperty ROOM_IDS (the name) of
              UndefinedProperty \<Rightarrow>
                (textResponse (''Room '' @ dquote @ the name @ dquote
                     @ '' not found. Available rooms: '' @ join '', '' (keys ROOM_IDS)), [])
            | roomId \<Rightarrow>
                (let endpoint = ''/spaces/'' @ spaceId (config w) @ ''/rooms/''
                                  @ propertyText roomId @ ''/contexts'';
                     (contextsData, calls) = makeCloudRequest (config w) (cloudContexts w) endpoint
                 in (case contextsData of
                       Inl e \<Rightarrow>
                         (textResponse (''Error getting room contexts: '' @ message e), calls)
                     | Inr contexts \<Rightarrow>
                         (textResponse (''Room Contexts for '' @ dquote @ the name @ dquote
                              @ '' ('' @ showNat (length contexts) @ '' contexts found):''
                              @ newline @ stringifyContexts w contexts), calls)))))"

definition getRoomNodes :: "world \<Rightarrow> tool_args option \<Rightarrow> ToolResponse \<times> string list" where
  "getRoomNodes w args =
     (let name = arg_room_name (argsOrEmpty args)
      in if \<not> truthy name then (textResponse ''Error: room_name parameter is required'', [])
         else
           (case getProperty ROOM_IDS (the name) of
              UndefinedProperty \<Rightarrow>
                (textResponse (''Room '' @ dquote @ the name @ dquote
                     @ '' not found. Available rooms: '' @ join '', '' (keys ROOM_IDS)), [])
            | roomId \<Rightarrow>
                (let endpoint = ''/spaces/'' @ spaceId (config w) @ ''/rooms/''
                                  @ propertyText roomId @ ''/nodes'';
                     (nodesData, calls) = makeCloudRequest (config w) (cloudNodes w) endpoint
                 in (case nodesData of
                       Inl e \<Rightarrow>
                         (textResponse (''Error getting room nodes: '' @ message e), calls)
                     | Inr nodes \<Rightarrow>
                         (textResponse (''Room Nodes for '' @ dquote @ the name @ dquote
                              @ '' ('' @ showNat (length nodes) @ '' nodes found):''
                              @ newline @ stringifyNodes w nodes), calls)))))"

section \<open>services/netdata: testCategoryMetricsActivity\<close>

text \<open>
  \<^verbatim>\<open>
  const { room_name, category } = args || {};
  if (!room_name || !category) return text("Error: room_name and category are required");
  try {
    const contextsResponse = await getRoomContexts({ room_name });
    const contextsText = contextsResponse.content[0].text;
    const contextsMatch = contextsText.match(/\[(.*)\]/s);
    if (!contextsMatch) throw new Error('Could not parse contexts from response');
    const allContexts = JSON.parse('[' + contextsMatch[1] + ']');
    const categoryContexts = filterContextsByCategory(allContexts, category);
    if (categoryContexts.length === 0) return text(`No ${category} contexts found in room "${room_name}"`);
    const results = await testMetricsInBatches(categoryContexts);
    return text(report);
  } catch (error) { return text(`Error testing ${category} metrics activity: ${error.message}`); }
  \<close>
  \<open>testMetricsInBatches(categoryContexts)\<close> takes the default \<open>batchSize = 5\<close>.  The
  handler returns its response with the URLs requested, the cloud's first and then the
  agent's; it does not return when the prober does not.
\<close>

definition testCategoryMetricsActivity ::
  "world \<Rightarrow> tool_args option \<Rightarrow> (ToolResponse \<times> string list) option" where
  "testCategoryMetricsActivity w args =
     (let name = arg_room_name (argsOrEmpty args);
          cat = arg_category (argsOrEmpty args)
      in if \<not> truthy name \<or> \<not> truthy cat
         then Some (textResponse ''Error: room_name and category are required'', [])
         else
           (let (contextsResponse, calls) =
                  getRoomContexts w (Some (noArgs\<lparr> arg_room_name := name \<rparr>));
                failed = (\<lambda>e. textResponse (''Error testing '' @ the cat
                                   @ '' metrics activity: '' @ message e))
            in (case parseContexts w (contentText contextsResponse) of
                  Inl e \<Rightarrow> Some (failed e, calls)
                | Inr allContexts \<Rightarrow>
                    (case filterContextsByCategory allContexts (the cat) of
                       Inl e \<Rightarrow> Some (failed e, calls)
                     | Inr categoryContexts \<Rightarrow>
                         if categoryContexts = []
                         then Some (textResponse (''No '' @ the cat @ '' contexts found in room ''
                                      @ dquote @ the name @ dquote), calls)
                         else
                           (case testMetricsInBatches (agentData w) categoryContexts 5 of
                              None \<Rightarrow> None
                            | Some st \<Rightarrow>
                                Some (\<lparr> content = [CategoryActivityReport (the name) (the cat)
                                                       (results st)] \<rparr>,
                                      calls @ concat (requested st)))))))"

text \<open>
  \<^verbatim>\<open>
  const { room_name } = args || {};
  if (!room_name) return text("Error: room_name is required");
  return await testCategoryMetricsActivity({ room_name, category: 'network' });
  \<close>
\<close>

definition testNetworkMetricsActivity ::
  "world \<Rightarrow> tool_args option \<Rightarrow> (ToolResponse \<times> string list) option" where
  "testNetworkMetricsActivity w args =
     (let name = arg_room_name (argsOrEmpty args)
      in if \<not> truthy name then Some (textResponse ''Error: room_name is required'', [])
         else testCategoryMetricsActivity w
                (Some (noArgs\<lparr> arg_room_name := name, arg_category := Some ''network'' \<rparr>)))"

section \<open>services/netdata: getActiveMetricsSummary\<close>

text \<open>
  \<open>(results.summary.activeCount / results.summary.tested * 100).toFixed(1)\<close>
\<close>

definition activeRateOf :: "nat \<Rightarrow> nat \<Rightarrow> string" where
  "activeRateOf activeN testedN =
     toFixed1 (jsMul (jsDiv (Fin (of_nat activeN)) (Fin (of_nat testedN))) (Fin 100))"

text \<open>
  The state of the loop over the categories: \<open>categoryResults\<close> (an object, its keys in
  insertion order), \<open>totalActive\<close>, \<open>totalTested\<close>, and the agent URLs requested so far.
\<close>

record summary_state =
  categoryResults :: "(string \<times> category_stats) list"
  totalActive :: nat
  totalTested :: nat
  probes :: "string list"

text \<open>
  \<^verbatim>\<open>
  for (const [categoryName, prefixes] of Object.entries(METRIC_CATEGORIES)) {
    try {
      const categoryContexts = filterContextsByCategory(allContexts, categoryName);
      if (categoryContexts.length > 0) {
        const sample = categoryContexts.slice(0, sample_size);
        const results = await testMetricsInBatches(sample);
        categoryResults[categoryName] = {
          totalAvailable: categoryContexts.length, tested: results.summary.tested,
          active: results.summary.activeCount,
          activeRate: (results.summary.activeCount / results.summary.tested * 100).toFixed(1) };
        totalActive += results.summary.activeCount;
        totalTested += results.summary.tested;
        await new Promise(resolve => setTimeout(resolve, config.netdata.rateLimitDelay));
      }
    } catch (error) {
      categoryResults[categoryName] = { totalAvailable: 0, tested: 0, active: 0, activeRate: "0.0", error: error.message };
    }
  }
  \<close>
\<close>

fun categoryLoop ::
  "(string \<Rightarrow> string + agent_data) \<Rightarrow> string list \<Rightarrow> int \<Rightarrow> (string \<times> string list) list
     \<Rightarrow> summary_state \<Rightarrow> summary_state option" where
  "categoryLoop agent allContexts sampleSize [] acc = Some acc"
| "categoryLoop agent allContexts sampleSize ((categoryName, pfxs) # rest) acc =
     (case filterContextsByCategory allContexts categoryName of
        Inl e \<Rightarrow>
          categoryLoop agent allContexts sampleSize rest
            (acc\<lparr> categoryResults := categoryResults acc @
                      [(categoryName, \<lparr> totalAvailable = 0, stat_tested = 0, stat_active = 0,
                                        activeRate = ''0.0'', stat_error = Some (message e) \<rparr>)] \<rparr>)
      | Inr categoryContexts \<Rightarrow>
          if categoryContexts \<noteq> [] then
            (case testMetricsInBatches agent (jsSlice categoryContexts 0 sampleSize) 5 of
               None \<Rightarrow> None
             | Some st \<Rightarrow>
                 categoryLoop agent allContexts sampleSize rest
                   \<lparr> categoryResults = categoryResults acc @
                        [(categoryName,
                          \<lparr> totalAvailable = length categoryContexts,
                            stat_tested = tested (summary (results st)),
                            stat_active = activeCount (summary (results st)),
                            activeRate = activeRateOf (activeCount (summary (results st)))
                                                      (tested (summary (results st))),
                            stat_error = None \<rparr>)],
                     totalActive = totalActive acc + activeCount (summary (results st)),
                     totalTested = totalTested acc + tested (summary (results st)),
                     probes = probes acc @ concat (requested st) \<rparr>)
          else categoryLoop agent allContexts sampleSize rest acc)"

text \<open>
  \<^verbatim>\<open>
  const { room_name, sample_size = 10 } = args || {};
  if (!room_name) return text("Error: room_name is required");
  try {
    const contextsResponse = await getRoomContexts({ room_name });
    ... allContexts as in testCategoryMetricsActivity ...
    const categoryResults = {}; let totalActive = 0; let totalTested = 0;
    for (...) { ... }
    const overallActiveRate = totalTested > 0 ? ((totalActive / totalTested) * 100).toFixed(1) : "0.0";
    return text(report);
  } catch (error) { return text(`Error generating active metrics summary: ${error.message}`); }
  \<close>
\<close>

definition getActiveMetricsSummary ::
  "world \<Rightarrow> tool_args option \<Rightarrow> (ToolResponse \<times> string list) option" where
  "getActiveMetricsSummary w args =
     (let name = arg_room_name (argsOrEmpty args);
          sampleSize = (case arg_sample_size (argsOrEmpty args) of None \<Rightarrow> 10 | Some n \<Rightarrow> n)
      in if \<not> truthy name then Some (textResponse ''Error: room_name is required'', [])
         else
           (let (contextsResponse, calls) =
                  getRoomContexts w (Some (noArgs\<lparr> arg_room_name := name \<rparr>))
            in (case parseContexts w (contentText contextsResponse) of
                  Inl e \<Rightarrow>
                    Some (textResponse (''Error generating active metrics summary: ''
                                          @ message e), calls)
                | Inr allContexts \<Rightarrow>
                    (case categoryLoop (agentData w) allContexts sampleSize METRIC_CATEGORIES
                            \<lparr> categoryResults = [], totalActive = 0, totalTested = 0,
                              probes = [] \<rparr> of
                       None \<Rightarrow> None
                     | Some acc \<Rightarrow>
                         Some (\<lparr> content =
                                   [ActiveMetricsSummaryReport (the name) sampleSize
                                      (length allContexts) (categoryResults acc)
                                      (totalTested acc) (totalActive acc)
                                      (if 0 < totalTested acc
                                       then activeRateOf (totalActive acc) (totalTested acc)
                                       else ''0.0'')] \<rparr>,
                               calls @ probes acc)))))"

text \<open>
  A line of the report's category breakdown:
  \<^verbatim>\<open>
  `${category.padEnd(15)}: ${stats.active}/${stats.tested} active (${stats.activeRate}%) of ${stats.totalAvailable} available${stats.error ? ` [ERROR: ${stats.error}]` : ''}`
  \<close>
\<close>

definition padEnd :: "nat \<Rightarrow> string \<Rightarrow> string" where
  "padEnd n s = s @ replicate (n - length s) (CHR '' '')"

definition categoryLine :: "string \<times> category_stats \<Rightarrow> string" where
  "categoryLine entry =
     (case entry of (cat, stats) \<Rightarrow>
        padEnd 15 cat @ '': '' @ showNat (stat_active stats) @ ''/'' @ showNat (stat_tested stats)
          @ '' active ('' @ activeRate stats @ ''%) of '' @ showNat (totalAvailable stats)
          @ '' available''
          @ (if truthy (stat_error stats) then '' [ERROR: '' @ the (stat_error stats) @ '']''
             else ''''))"

section \<open>The node that a request addresses\<close>



section \<open>A sample world\<close>

text \<open>
  A world for concrete runs: a configured token, one room with four contexts, an agent
  that answers two of them (\<open>sampleAgent\<close>), a cloud that reports alarms for three rooms.
\<close>

definition sampleConfig :: cloud_config where
  "sampleConfig = \<lparr> apiToken = Some ''secret'', cloudBaseUrl = ''https://app.netdata.cloud'',
                     spaceId = ''space1'' \<rparr>"

definition sampleContexts :: "string list" where
  "sampleContexts = [''net.eth0'', ''disk.io'', ''mem.free'', ''net.packets'']"

definition sampleStringify :: "string list \<Rightarrow> string" where
  "sampleStringify cs = ''['' @ join '','' (map (\<lambda>c. dquote @ c @ dquote) cs) @ '']''"

definition sampleContextsText :: string where
  "sampleContextsText =
     ''Room Contexts for '' @ dquote @ ''cato-v100'' @ dquote @ '' (4 contexts found):''
       @ newline @ sampleStringify sampleContexts"

definition sampleParse :: "string \<Rightarrow> js_error + string list" where
  "sampleParse t =
     (if t = sampleContextsText then Inr sampleContexts
      else Inl (Error ''Could not parse contexts from response''))"

definition sampleAlarms :: alarms_data where
  "sampleAlarms =
     \<lparr> alarm_results = Some
         [\<lparr> entry_roomID = ''r-all'',
             alarmCounter = Some \<lparr> counter_warning = Some 3, counter_critical = Some 1 \<rparr>,
             unreachableCount = Some 2 \<rparr>,
          \<lparr> entry_roomID = ''r-gpu'',
             alarmCounter = Some \<lparr> counter_warning = Some 5, counter_critical = None \<rparr>,
             unreachableCount = None \<rparr>,
          \<lparr> entry_roomID = ''r-gone'',
             alarmCounter = Some \<lparr> counter_warning = Some 7, counter_critical = Some 7 \<rparr>,
             unreachableCount = Some 7 \<rparr>] \<rparr>"

definition sampleRooms :: "cloud_room list" where
  "sampleRooms =
     [\<lparr> cloud_room_id = ''r-all'', cloud_room_name = ''All nodes'' \<rparr>,
      \<lparr> cloud_room_id = ''r-gpu'', cloud_room_name = ''cato-v100'' \<rparr>]"

definition sampleWorld :: world where
  "sampleWorld =
     \<lparr> config = sampleConfig,
       cloudContexts = (\<lambda>url.
          if url = ''https://app.netdata.cloud/api/v2/spaces/space1/rooms/72789f00-8cc4-48e3-90a0-3ea87170eb6a/contexts''
          then Inr sampleContexts else Inl ''Request failed with status code 404''),
       cloudNodes = (\<lambda>url.
          if url = ''https://app.netdata.cloud/api/v2/spaces/space1/rooms/r-all/nodes''
          then Inr [\<lparr> node_name = ''node1'',
                      alarmCounters = Some \<lparr> counter_warning = Some 0, counter_critical = Some 1 \<rparr> \<rparr>,
                    \<lparr> node_name = ''node2'', alarmCounters = None \<rparr>]
          else Inl ''Request failed with status code 404''),
       cloudAlarms = (\<lambda>url. Inr sampleAlarms),
       cloudRooms = (\<lambda>url. Inr sampleRooms),
       roomsRejectFirst = False,
       agentData = sampleAgent,
       agentAlarms = (\<lambda>url.
          if url = ''http://node1:19999/api/v1/alarms?active=true''
          then Inr \<lparr> alarms = Some
                 [(''disk_full'', \<lparr> alarm_status = Some ''Critical'', alarm_name = None,
                                    alarm_info = Some ''disk is full'', alarm_chart = None \<rparr>),
                  (''ram_usage'', \<lparr> alarm_status = Some ''WARNING'', alarm_name = Some ''ram'',
                                    alarm_info = None, alarm_chart = Some ''system.ram'' \<rparr>)] \<rparr>
          else Inl ''timeout of 5000ms exceeded''),
       stringifyContexts = sampleStringify,
       stringifyNodes = (\<lambda>nodes. ''[...]''),
       parseContexts = sampleParse \<rparr>"

text \<open>The same world when the cloud is unreachable.\<close>

definition offlineWorld :: world where
  "offlineWorld =
     sampleWorld\<lparr> cloudAlarms := (\<lambda>url. Inl ''connect ECONNREFUSED''),
                  cloudRooms := (\<lambda>url. Inl ''connect ECONNREFUSED'') \<rparr>"



section \<open>services/netdata: the alarm summary\<close>

text \<open>
  The interface \<open>NetDataAlarmData\<close>.  The fields of \<open>totals\<close> named \<open>warnings\<close>, \<open>critical\<close>
  and \<open>unreachable\<close> are \<open>total_warnings\<close>, \<open>total_critical\<close> and \<open>total_unreachable\<close>
  here; the optional field \<open>error\<close> is \<open>alarm_error\<close>.
\<close>

record RoomAlarm =
  roomID :: string
  roomName :: string
  warnings :: nat
  critical :: nat
  unreachable :: nat

record CriticalAlarm =
  host :: string
  alertName :: string
  status :: string
  description :: string
  chart :: string
  room :: string

record alarm_totals =
  total_warnings :: nat
  total_critical :: nat
  total_unreachable :: nat
  totalRooms :: nat
  roomsWithIssues :: nat

record NetDataAlarmData =
  totals :: alarm_totals
  roomsWithAlarms :: "RoomAlarm list"
  criticalAlarmDetails :: "CriticalAlarm list"
  allRooms :: "room_alarm_entry list"
  alarm_error :: "string option"

text \<open>\<open>v || d\<close> for an optional string: the default replaces \<open>undefined\<close> and the empty string.\<close>

definition orElse :: "string option \<Rightarrow> string \<Rightarrow> string" where
  "orElse v d = (if truthy v then the v else d)"

text \<open>
  \<open>s.toUpperCase()\<close> on the letters \<open>a\<close> to \<open>z\<close>; other code units are left as they are,
  which decides the comparison with \<open>'CRITICAL'\<close> for every string of code units up to
  255.
\<close>

definition toUpperCase :: "string \<Rightarrow> string" where
  "toUpperCase s =
     map (\<lambda>c. case charIndex c ''abcdefghijklmnopqrstuvwxyz'' of
                 Some i \<Rightarrow> ''ABCDEFGHIJKLMNOPQRSTUVWXYZ'' ! i
               | None \<Rightarrow> c) s"

text \<open>
  The critical alarms of one node:
  \<^verbatim>\<open>
  const alarms = response.data.alarms || {};
  for (const [alarmKey, alarmData] of Object.entries(alarms)) {
    if (alarm.status && alarm.status.toUpperCase() === 'CRITICAL')
      criticalAlerts.push({ host: node.name, alertName: alarm.name || alarmKey, status: alarm.status,
        description: alarm.info || 'Critical alert detected', chart: alarm.chart || 'Unknown',
        room: room.roomName });
  }
  \<close>
\<close>

definition criticalAlertsOf :: "RoomAlarm \<Rightarrow> cloud_node \<Rightarrow> agent_alarms \<Rightarrow> CriticalAlarm list" where
  "criticalAlertsOf roomData node response =
     map (\<lambda>(alarmKey, alarm).
            \<lparr> host = node_name node, alertName = orElse (alarm_name alarm) alarmKey,
              status = the (alarm_status alarm),
              description = orElse (alarm_info alarm) ''Critical alert detected'',
              chart = orElse (alarm_chart alarm) ''Unknown'',
              room = roomName roomData \<rparr>)
       (filter (\<lambda>(alarmKey, alarm).
                  truthy (alarm_status alarm) \<and> toUpperCase (the (alarm_status alarm)) = ''CRITICAL'')
          (case alarms response of None \<Rightarrow> [] | Some kvs \<Rightarrow> kvs))"

text \<open>\<open>node.alarmCounters && node.alarmCounters.critical > 0\<close>\<close>

definition hasCriticals :: "cloud_node \<Rightarrow> bool" where
  "hasCriticals node =
     (case alarmCounters node of
        None \<Rightarrow> False
      | Some counters \<Rightarrow> (case counter_critical counters of None \<Rightarrow> False | Some n \<Rightarrow> 0 < n))"

text \<open>
  \<open>getCriticalAlarmDetails\<close>: for each room its nodes are fetched from the cloud, and
  each node with critical alarms is asked directly; a room or a node whose request
  fails is skipped.
\<close>

definition getCriticalAlarmDetails :: "world \<Rightarrow> RoomAlarm list \<Rightarrow> CriticalAlarm list" where
  "getCriticalAlarmDetails w roomsWithCriticals =
     concat (map (\<lambda>roomData.
        case fst (makeCloudRequest (config w) (cloudNodes w)
                    (''/spaces/'' @ spaceId (config w) @ ''/rooms/'' @ roomID roomData @ ''/nodes'')) of
          Inl roomError \<Rightarrow> []
        | Inr nodesData \<Rightarrow>
            concat (map (\<lambda>node.
               case fst (axiosGet (agentAlarms w)
                           (''http://'' @ node_name node @ '':19999/api/v1/alarms?active=true'')) of
                 Inl nodeError \<Rightarrow> []
               | Inr response \<Rightarrow> criticalAlertsOf roomData node response)
              (filter hasCriticals nodesData)))
       roomsWithCriticals)"

text \<open>
  \<open>Object.fromEntries(roomsData.map(room => [room.id, room.name]))\<close>: a later entry
  replaces an earlier one with the same key.  A key the object does not have may still
  read a member of \<open>Object.prototype\<close>; such a value is truthy but is not the string
  \<open>"All nodes"\<close>, so for the test below it counts as no name.
\<close>

definition roomIdToName :: "cloud_room list \<Rightarrow> string \<Rightarrow> string option" where
  "roomIdToName roomsData = map_of (rev (map (\<lambda>r. (cloud_room_id r, cloud_room_name r)) roomsData))"

text \<open>\<open>room.alarmCounter?.warning || 0\<close>, \<open>room.alarmCounter?.critical || 0\<close>, \<open>room.unreachableCount || 0\<close>\<close>

definition warningsOf :: "room_alarm_entry \<Rightarrow> nat" where
  "warningsOf entry =
     (case alarmCounter entry of
        None \<Rightarrow> 0
      | Some counters \<Rightarrow> (case counter_warning counters of None \<Rightarrow> 0 | Some n \<Rightarrow> n))"

definition criticalOf :: "room_alarm_entry \<Rightarrow> nat" where
  "criticalOf entry =
     (case alarmCounter entry of
        None \<Rightarrow> 0
      | Some counters \<Rightarrow> (case counter_critical counters of None \<Rightarrow> 0 | Some n \<Rightarrow> n))"

definition unreachableOf :: "room_alarm_entry \<Rightarrow> nat" where
  "unreachableOf entry = (case unreachableCount entry of None \<Rightarrow> 0 | Some n \<Rightarrow> n)"

text \<open>
  The body of \<open>roomAlarms.forEach\<close>, on the pair of \<open>roomsWithAlarms\<close> and
  \<open>roomsWithCriticals\<close>:
  \<^verbatim>\<open>
  if ((warnings > 0 || critical > 0 || unreachable > 0) && roomIdToName[room.roomID]) {
    const roomData = { roomID: room.roomID, roomName: roomIdToName[room.roomID], warnings, critical, unreachable };
    if (roomData.roomName === "All nodes") {
      roomsWithAlarms.push(roomData);
      if (critical > 0) roomsWithCriticals.push(roomData);
    }
  }
  \<close>
\<close>

definition alarmStep ::
  "(string \<Rightarrow> string option) \<Rightarrow> RoomAlarm list \<times> RoomAlarm list \<Rightarrow> room_alarm_entry
     \<Rightarrow> RoomAlarm list \<times> RoomAlarm list" where
  "alarmStep idToName acc entry =
     (if (0 < warningsOf entry \<or> 0 < criticalOf entry \<or> 0 < unreachableOf entry)
         \<and> truthy (idToName (entry_roomID entry))
      then
        (let roomData = \<lparr> roomID = entry_roomID entry,
                           roomName = the (idToName (entry_roomID entry)),
                           warnings = warningsOf entry, critical = criticalOf entry,
                           unreachable = unreachableOf entry \<rparr>
         in if roomName roomData = ''All nodes''
            then (fst acc @ [roomData],
                  if 0 < criticalOf entry then snd acc @ [roomData] else snd acc)
            else acc)
      else acc)"

text \<open>The summary of the \<open>catch\<close> branch.\<close>

definition failedSummary :: "js_error \<Rightarrow> NetDataAlarmData" where
  "failedSummary e =
     \<lparr> totals = \<lparr> total_warnings = 0, total_critical = 0, total_unreachable = 0,
                  totalRooms = 0, roomsWithIssues = 0 \<rparr>,
       roomsWithAlarms = [], criticalAlarmDetails = [], allRooms = [],
       alarm_error = Some (message e) \<rparr>"

text \<open>
  \<^verbatim>\<open>
  try {
    const [alarmsData, roomsData] = await Promise.all([
      makeCloudRequest(`/spaces/${spaceId}/alarms`), makeCloudRequest(`/spaces/${spaceId}/rooms`)]);
    const roomAlarms = alarmsData.results || [];
    ... the loop ...
    let criticalAlarmDetails = [];
    if (roomsWithCriticals.length > 0) criticalAlarmDetails = await getCriticalAlarmDetails(roomsWithCriticals);
    const totalWarnings = roomsWithAlarms.reduce((sum, room) => sum + room.warnings, 0);  // and so on
    return { totals: { warnings: totalWarnings, critical: totalCritical, unreachable: totalUnreachable,
                       totalRooms: roomAlarms.length, roomsWithIssues: roomsWithAlarms.length },
             roomsWithAlarms, criticalAlarmDetails, allRooms: roomAlarms };
  } catch (error) {
    return { error: error.message, totals: { warnings: 0, critical: 0, unreachable: 0, totalRooms: 0,
             roomsWithIssues: 0 }, roomsWithAlarms: [], criticalAlarmDetails: [], allRooms: [] };
  }
  \<close>
  \<open>Promise.all\<close> rejects with the error of the request that fails first.  The whole body
  is inside the \<open>try\<close>, so the function returns a summary on every path.
\<close>

definition getNetDataAlarms :: "world \<Rightarrow> NetDataAlarmData" where
  "getNetDataAlarms w =
     (case (fst (makeCloudRequest (config w) (cloudAlarms w)
                   (''/spaces/'' @ spaceId (config w) @ ''/alarms'')),
            fst (makeCloudRequest (config w) (cloudRooms w)
                   (''/spaces/'' @ spaceId (config w) @ ''/rooms''))) of
        (Inl e1, Inl e2) \<Rightarrow> failedSummary (if roomsRejectFirst w then e2 else e1)
      | (Inl e1, Inr roomsData) \<Rightarrow> failedSummary e1
      | (Inr alarmsData, Inl e2) \<Rightarrow> failedSummary e2
      | (Inr alarmsData, Inr roomsData) \<Rightarrow>
          (let roomAlarms = (case alarm_results alarmsData of None \<Rightarrow> [] | Some rs \<Rightarrow> rs);
               (withAlarms, withCriticals) =
                  foldl (alarmStep (roomIdToName roomsData)) ([], []) roomAlarms;
               details = (if withCriticals \<noteq> [] then getCriticalAlarmDetails w withCriticals
                          else [])
           in \<lparr> totals =
                  \<lparr> total_warnings = foldl (\<lambda>sum r. sum + warnings r) 0 withAlarms,
                    total_critical = foldl (\<lambda>sum r. sum + critical r) 0 withAlarms,
                    total_unreachable = foldl (\<lambda>sum r. sum + unreachable r) 0 withAlarms,
                    totalRooms = length roomAlarms,
                    roomsWithIssues = length withAlarms \<rparr>,
                roomsWithAlarms = withAlarms,
                criticalAlarmDetails = details,
                allRooms = roomAlarms,
                alarm_error = None \<rparr>))"

text \<open>
  The retention rule in the words of the specification: an entry of the alarm counters
  is retained when (a) one of its counters is not zero, (b) its room ID is in the room
  list, and (c) the name the lookup resolves it to is the sentinel \<open>"All nodes"\<close>.
\<close>

definition retainedBySpec :: "cloud_room list \<Rightarrow> room_alarm_entry list \<Rightarrow> room_alarm_entry list" where
  "retainedBySpec roomsData entries =
     filter (\<lambda>e. (warningsOf e \<noteq> 0 \<or> criticalOf e \<noteq> 0 \<or> unreachableOf e \<noteq> 0)
               \<and> entry_roomID e \<in> set (map cloud_room_id roomsData)
               \<and> roomIdToName roomsData (entry_roomID e) = Some ''All nodes'')
       entries"

section \<open>services/akash: utilization of a CPU or memory issue\<close>

text \<open>
  A field of \<open>AkashProvider\<close> declared \<open>number | string\<close> and optional.  Of the record,
  the two fields that the utilization reads.
\<close>

datatype jsfield = Absent | NumField jsnum | StrField string

record AkashProvider =
  allocatable :: jsfield
  allocated :: jsfield

text \<open>Truthiness: \<open>undefined\<close>, \<open>0\<close>, \<open>NaN\<close> and the empty string are falsy.\<close>

fun truthyField :: "jsfield \<Rightarrow> bool" where
  "truthyField Absent = False"
| "truthyField (NumField n) = (n \<noteq> NaN \<and> n \<noteq> Fin 0)"
| "truthyField (StrField s) = (s \<noteq> [])"

text \<open>\<open>Number(v)\<close>\<close>

fun toNumber :: "jsfield \<Rightarrow> jsnum" where
  "toNumber Absent = NaN"
| "toNumber (NumField n) = n"
| "toNumber (StrField s) = stringToNumber s"

text \<open>
  The value interpolated after \<open>Utilization:\<close> in \<open>getAkashCpuIssues\<close> and, with the same
  expression, in \<open>getAkashMemoryIssues\<close>:
  \<^verbatim>\<open>
  ${node.allocated && node.allocatable ?
    ((Number(node.allocated) / Number(node.allocatable)) * 100).toFixed(1) + '%' : 'Unknown'}
  \<close>
\<close>

definition utilization :: "AkashProvider \<Rightarrow> string" where
  "utilization node =
     (if truthyField (allocated node) \<and> truthyField (allocatable node)
      then toFixed1 (jsMul (jsDiv (toNumber (allocated node)) (toNumber (allocatable node)))
                       (Fin 100)) @ ''%''
      else ''Unknown'')"

section \<open>services/github: the wiki tools\<close>

text \<open>
  The outside world of the wiki tools: the outcomes of the helpers that fetch wiki
  content (\<open>searchWikiContent\<close> gives the page and preview of each hit), and
  \<open>JSON.stringify\<close> of the search results.
\<close>

record wiki_world =
  searchWikiContent :: "string \<Rightarrow> js_error + (string \<times> string) list"
  getWikiPageContent :: "string \<Rightarrow> js_error + string option"
  getAllWikiPages :: "string list"
  extractRPCNodes :: "js_error + string"
  stringifySearchResults :: "(string \<times> string) list \<Rightarrow> string"

definition github_getToolNames :: "string list" where
  "github_getToolNames = [''search_wiki'', ''get_wiki_page'', ''list_rpc_nodes'', ''get_wiki_pages_list'']"

text \<open>
  \<^verbatim>\<open>
  async function searchWiki(args: any) {
    const { query } = args;
    if (!query) return text("Error: query parameter is required");
    try {
      const results = await searchWikiContent(query);
      if (results.length === 0) return text(`No wiki pages found containing "${query}"`);
      return text(`Found ${results.length} wiki page(s) containing "${query}":\n\n${JSON.stringify(searchResults, null, 2)}`);
    } catch (error) { return text(`Error searching wiki: ${error.message}`); }
  }
  \<close>
  The destructuring \<open>const { query } = args\<close> stands before the \<open>try\<close> and has no
  \<open>|| {}\<close>: when \<open>args\<close> is \<open>undefined\<close> it throws a \<open>TypeError\<close> that the function does
  not catch.
\<close>

definition searchWiki :: "wiki_world \<Rightarrow> tool_args option \<Rightarrow> js_error + ToolResponse" where
  "searchWiki gw args =
     (case args of
        None \<Rightarrow> Inl (TypeError ''Cannot destructure property 'query' of 'args' as it is undefined.'')
      | Some a \<Rightarrow>
          if \<not> truthy (arg_query a) then Inr (textResponse ''Error: query parameter is required'')
          else
            (case searchWikiContent gw (the (arg_query a)) of
               Inl e \<Rightarrow> Inr (textResponse (''Error searching wiki: '' @ message e))
             | Inr hits \<Rightarrow>
                 if hits = []
                 then Inr (textResponse (''No wiki pages found containing '' @ dquote
                             @ the (arg_query a) @ dquote))
                 else Inr (textResponse (''Found '' @ showNat (length hits)
                             @ '' wiki page(s) containing '' @ dquote @ the (arg_query a) @ dquote
                             @ '':'' @ newline @ newline @ stringifySearchResults gw hits))))"

text \<open>
  \<^verbatim>\<open>
  async function getWikiPage(args: any) {
    const { page_name } = args;
    if (!page_name) return text("Error: page_name parameter is required");
    try {
      const content = await getWikiPageContent(page_name);
      if (!content) {
        const allPages = await getAllWikiPages();
        const pageList = allPages.length > 0 ? allPages.join(', ') : 'Home, Overview, DevOps-Phone-Numbers';
        return text(`Wiki page "${page_name}" not found. Available pages: ${pageList}`);
      }
      return text(`Content from wiki page "${page_name}":\n\n${content}`);
    } catch (error) { return text(`Error getting wiki page: ${error.message}`); }
  }
  \<close>
\<close>

definition getWikiPage :: "wiki_world \<Rightarrow> tool_args option \<Rightarrow> js_error + ToolResponse" where
  "getWikiPage gw args =
     (case args of
        None \<Rightarrow> Inl (TypeError ''Cannot destructure property 'page_name' of 'args' as it is undefined.'')
      | Some a \<Rightarrow>
          if \<not> truthy (arg_page_name a)
          then Inr (textResponse ''Error: page_name parameter is required'')
          else
            (case getWikiPageContent gw (the (arg_page_name a)) of
               Inl e \<Rightarrow> Inr (textResponse (''Error getting wiki page: '' @ message e))
             | Inr page \<Rightarrow>
                 if \<not> truthy page
                 then Inr (textResponse (''Wiki page '' @ dquote @ the (arg_page_name a) @ dquote
                             @ '' not found. Available pages: ''
                             @ (if getAllWikiPages gw \<noteq> [] then join '', '' (getAllWikiPages gw)
                                else ''Home, Overview, DevOps-Phone-Numbers'')))
                 else Inr (textResponse (''Content from wiki page '' @ dquote
                             @ the (arg_page_name a) @ dquote @ '':'' @ newline @ newline
                             @ the page))))"

text \<open>
  \<open>listRpcNodes\<close> and \<open>getWikiPagesList\<close> do not read their arguments and run inside
  \<open>try\<close>; \<open>extractRPCNodes\<close> gives the summary already rendered as JSON.
\<close>

definition listRpcNodes :: "wiki_world \<Rightarrow> tool_args option \<Rightarrow> js_error + ToolResponse" where
  "listRpcNodes gw args =
     (case extractRPCNodes gw of
        Inl e \<Rightarrow> Inr (textResponse (''Error extracting RPC nodes: '' @ message e))
      | Inr summaryText \<Rightarrow>
          Inr (textResponse (''RPC Nodes Information:'' @ newline @ newline @ summaryText)))"

definition FALLBACK_WIKI_PAGES :: "string list" where
  "FALLBACK_WIKI_PAGES =
     [''Home'', ''Overview'', ''Index'', ''README'', ''RPC-Nodes'', ''RPC_Nodes'', ''RPC'', ''Nodes'',
      ''Infrastructure'', ''Servers'', ''Providers'', ''Network'', ''Deployment'', ''Configuration'',
      ''Monitoring'', ''Operations'', ''Maintenance'', ''DevOps-Phone-Numbers'', ''Contact'',
      ''Engineers'']"

definition getWikiPagesList :: "wiki_world \<Rightarrow> tool_args option \<Rightarrow> js_error + ToolResponse" where
  "getWikiPagesList gw args =
     (let allPages = getAllWikiPages gw;
          rootPages = filter (\<lambda>page. CHR ''/'' \<notin> set page) allPages;
          subPages = filter (\<lambda>page. CHR ''/'' \<in> set page) allPages
      in if allPages = []
         then Inr (textResponse (''Unable to fetch wiki pages dynamically. Common wiki pages to try:''
                     @ newline @ join '', '' FALLBACK_WIKI_PAGES @ newline @ newline
                     @ ''Note: Use get_wiki_page tool to retrieve specific page content.''))
         else Inr (textResponse
                (''Dynamically discovered wiki pages:'' @ newline @ newline
                 @ (if rootPages \<noteq> []
                    then ''Root Level Pages ('' @ showNat (length rootPages) @ ''):'' @ newline
                           @ join '', '' rootPages @ newline @ newline
                    else '''')
                 @ (if subPages \<noteq> []
                    then ''Subdirectory Pages ('' @ showNat (length subPages) @ ''):'' @ newline
                           @ join '', '' subPages @ newline @ newline
                    else '''')
                 @ ''Total pages found: '' @ showNat (length allPages) @ newline @ newline
                 @ ''Use get_wiki_page tool to retrieve specific page content.'')))"

text \<open>The \<open>switch\<close> of the service's \<open>handleToolCall\<close>.\<close>

definition github_handleToolCall ::
  "wiki_world \<Rightarrow> string \<Rightarrow> tool_args option \<Rightarrow> js_error + ToolResponse" where
  "github_handleToolCall gw name args =
     (if name = ''search_wiki'' then searchWiki gw args
      else if name = ''get_wiki_page'' then getWikiPage gw args
      else if name = ''list_rpc_nodes'' then listRpcNodes gw args
      else if name = ''get_wiki_pages_list'' then getWikiPagesList gw args
      else Inl (Error (''Unknown GitHub tool: '' @ name)))"

section \<open>services/index: the tool router, and the server's request handler\<close>

definition netdata_getToolNames :: "string list" where
  "netdata_getToolNames =
     [''get_space_info'', ''get_nodes_info'', ''get_infrastructure_overview'',
      ''get_room_contexts'', ''get_room_nodes'', ''test_room_parameter'', ''debug_api_call'',
      ''test_direct_room_contexts'', ''test_category_metrics_activity'',
      ''test_network_metrics_activity'', ''get_active_metrics_summary'']"

definition akash_getToolNames :: "string list" where
  "akash_getToolNames =
     [''get_akash_providers_down'', ''get_akash_gpu_issues'', ''get_akash_cpu_issues'',
      ''get_akash_memory_issues'', ''get_akash_partial_failures'',
      ''get_akash_all_issues_report'']"

text \<open>
  \<^verbatim>\<open>
  export async function handleToolCall(name: string, args: any) {
    if (netdata.getToolNames().includes(name)) return await netdata.handleToolCall(name, args);
    if (akash.getToolNames().includes(name)) return await akash.handleToolCall(name, args);
    if (github.getToolNames().includes(name)) return await github.handleToolCall(name, args);
    throw new McpError(ErrorCode.MethodNotFound, `Unknown tool: ${name}`);
  }
  \<close>
  The routers of the NetData and Akash services are parameters here.
\<close>

definition handleToolCall ::
  "(string \<Rightarrow> tool_args option \<Rightarrow> js_error + ToolResponse)
     \<Rightarrow> (string \<Rightarrow> tool_args option \<Rightarrow> js_error + ToolResponse)
     \<Rightarrow> wiki_world \<Rightarrow> string \<Rightarrow> tool_args option \<Rightarrow> js_error + ToolResponse" where
  "handleToolCall netdataRouter akashRouter gw name args =
     (if name \<in> set netdata_getToolNames then netdataRouter name args
      else if name \<in> set akash_getToolNames then akashRouter name args
      else if name \<in> set github_getToolNames then github_handleToolCall gw name args
      else Inl (McpError MethodNotFound (''Unknown tool: '' @ name)))"

text \<open>
  The server's handler of a tool call: what it throws is a fault of the protocol.
  \<^verbatim>\<open>
  const { name, arguments: args } = request.params;
  try { return await handleToolCall(name, args); }
  catch (error) {
    if (error instanceof McpError) throw error;
    const errorMessage = error instanceof Error ? error.message : String(error);
    throw new McpError(ErrorCode.InternalError, `Error executing tool ${name}: ${errorMessage}`);
  }
  \<close>
\<close>

definition callTool ::
  "(string \<Rightarrow> tool_args option \<Rightarrow> js_error + ToolResponse)
     \<Rightarrow> (string \<Rightarrow> tool_args option \<Rightarrow> js_error + ToolResponse)
     \<Rightarrow> wiki_world \<Rightarrow> string \<Rightarrow> tool_args option \<Rightarrow> js_error + ToolResponse" where
  "callTool netdataRouter akashRouter gw name args =
     (case handleToolCall netdataRouter akashRouter gw name args of
        Inr response \<Rightarrow> Inr response
      | Inl (McpError code m) \<Rightarrow> Inl (McpError code m)
      | Inl e \<Rightarrow> Inl (McpError InternalError (''Error executing tool '' @ name @ '': '' @ message e)))"

section \<open>Category filter\<close>

lemma getProperty_registered:
  "category \<in> set (keys obj) \<Longrightarrow> \<exists>v. map_of obj category = Some v \<and> getProperty obj category = OwnProperty v"
  by (cases "map_of obj category") (auto simp: getProperty_def keys_def map_of_eq_None_iff)

text \<open>
  C5.  For a registered category name, \<open>filterContextsByCategory\<close> does not fail and
  returns exactly the identifiers of the input that start with at least one of the
  category's prefixes, in their original relative order: the result is the input
  filtered by "some prefix matches", every returned identifier matches a prefix, every
  input identifier that matches a prefix is returned, and the result is a subsequence
  of the input.
\<close>

theorem filterContextsByCategory_registered:
  assumes "category \<in> set (keys METRIC_CATEGORIES)"
  shows "\<exists>pfxs r.
           map_of METRIC_CATEGORIES category = Some pfxs
         \<and> filterContextsByCategory contexts category = Inr r
         \<and> r = filter (\<lambda>c. \<exists>p \<in> set pfxs. startsWith c p) contexts
         \<and> (\<forall>c \<in> set r. \<exists>p \<in> set pfxs. startsWith c p)
         \<and> (\<forall>c \<in> set contexts. (\<exists>p \<in> set pfxs. startsWith c p) \<longrightarrow> c \<in> set r)
         \<and> subseq r contexts"
proof -
  from getProperty_registered [OF assms] obtain pfxs where
    m: "map_of METRIC_CATEGORIES category = Some pfxs" and
    g: "getProperty METRIC_CATEGORIES category = OwnProperty pfxs"
    by blast
  let ?r = "filter (\<lambda>c. \<exists>p \<in> set pfxs. startsWith c p) contexts"
  have "filterContextsByCategory contexts category = Inr ?r"
    by (simp add: filterContextsByCategory_def g list_ex_iff)
  moreover have "subseq ?r contexts"
    by simp
  ultimately show ?thesis
    using m by auto
qed

theorem filterContextsByCategory_registered_witness:
  "''disk'' \<in> set (keys METRIC_CATEGORIES)
   \<and> filterContextsByCategory [''disk.io'', ''net.eth0'', ''system.io'', ''mem.free''] ''disk''
       = Inr [''disk.io'', ''system.io'']"
proof -
  have k: "''disk'' \<in> set (keys METRIC_CATEGORIES)"
    by (simp add: keys_def METRIC_CATEGORIES_def)
  have m: "map_of METRIC_CATEGORIES ''disk'' = Some [''disk.'', ''system.io'']"
    by (simp add: METRIC_CATEGORIES_def)
  from filterContextsByCategory_registered [OF k, of "[''disk.io'', ''net.eth0'', ''system.io'', ''mem.free'']"]
  obtain pfxs r where
    "map_of METRIC_CATEGORIES ''disk'' = Some pfxs"
    "filterContextsByCategory [''disk.io'', ''net.eth0'', ''system.io'', ''mem.free''] ''disk'' = Inr r"
    "r = filter (\<lambda>c. \<exists>p \<in> set pfxs. startsWith c p) [''disk.io'', ''net.eth0'', ''system.io'', ''mem.free'']"
    by blast
  with m have "filterContextsByCategory [''disk.io'', ''net.eth0'', ''system.io'', ''mem.free''] ''disk''
      = Inr (filter (\<lambda>c. \<exists>p \<in> set [''disk.'', ''system.io'']. startsWith c p)
               [''disk.io'', ''net.eth0'', ''system.io'', ''mem.free''])"
    by simp
  then show ?thesis
    using k by (simp add: startsWith_def)
qed

section \<open>Batched prober\<close>

lemma loop_forever:
  assumes "testLoop agent contexts batchSize i st = Some r"
  shows "\<not> (batchSize \<le> 0 \<and> i \<le> 0 \<and> contexts \<noteq> [])"
proof (rule testLoop.raw_induct [where P = "\<lambda>agent contexts batchSize i st r. \<not> (batchSize \<le> 0 \<and> i \<le> 0 \<and> contexts \<noteq> [])", OF _ assms])
  fix f agent contexts batchSize i st y
  assume IH: "\<And>agent contexts batchSize i st y.
                f agent contexts batchSize i st = Some y \<Longrightarrow>
                \<not> (batchSize \<le> 0 \<and> i \<le> 0 \<and> contexts \<noteq> [])"
    and eq: "(if i < int (length contexts)
              then f agent contexts batchSize (i + batchSize) (batchStep agent contexts batchSize i st)
              else Some st) = Some y"
  show "\<not> (batchSize \<le> 0 \<and> i \<le> 0 \<and> contexts \<noteq> [])"
  proof
    assume A: "batchSize \<le> 0 \<and> i \<le> 0 \<and> contexts \<noteq> []"
    then have "i < int (length contexts)"
      by (cases contexts) auto
    with eq have "f agent contexts batchSize (i + batchSize) (batchStep agent contexts batchSize i st) = Some y"
      by simp
    from IH [OF this] A show False
      by auto
  qed
qed

lemma testLoop_diverges:
  assumes "batchSize \<le> 0" "i \<le> 0" "contexts \<noteq> []"
  shows "testLoop agent contexts batchSize i st = None"
proof (cases "testLoop agent contexts batchSize i st")
  case None
  then show ?thesis .
next
  case (Some r)
  from loop_forever [OF Some] assms show ?thesis by simp
qed

lemma jsSlice_chunk:
  assumes "0 \<le> i" "0 < b"
  shows "jsSlice xs i (i + b) = take (nat b) (drop (nat i) xs)"
proof (cases "i < int (length xs)")
  case True
  show ?thesis
  proof (cases "i + b \<le> int (length xs)")
    case True
    with assms \<open>i < int (length xs)\<close> show ?thesis
      by (simp add: jsSlice_def Let_def min_def)
  next
    case False
    with assms \<open>i < int (length xs)\<close> show ?thesis
      by (simp add: jsSlice_def Let_def min_def nat_diff_distrib)
  qed
next
  case False
  with assms show ?thesis
    by (simp add: jsSlice_def Let_def min_def)
qed

lemma chunked_Nil: "chunked n [] []"
  by (simp add: chunked_def)

lemma chunked_Cons:
  assumes "chunked n (drop n xs) bs" "0 < n" "xs \<noteq> []"
  shows "chunked n xs (take n xs # bs)"
proof -
  from assms(1) have cc: "concat bs = drop n xs"
    and sz: "\<forall>b \<in> set bs. 0 < length b \<and> length b \<le> n"
    and full: "\<forall>b \<in> set (butlast bs). length b = n"
    unfolding chunked_def by blast+
  have c: "concat (take n xs # bs) = xs"
    by (simp add: cc)
  have l: "0 < length (take n xs) \<and> length (take n xs) \<le> n"
    using assms(2,3) by (cases xs) simp_all
  have "length (take n xs) = n" if "bs \<noteq> []"
  proof -
    from that obtain b bs' where bs: "bs = b # bs'"
      by (cases bs) simp_all
    with sz have "b \<noteq> []"
      by simp
    with bs have "concat bs \<noteq> []"
      by simp
    with cc have "n < length xs"
      by simp
    then show ?thesis
      by simp
  qed
  then have f: "\<forall>b \<in> set (butlast (take n xs # bs)). length b = n"
    using full by simp
  from sz l have s: "\<forall>b \<in> set (take n xs # bs). 0 < length b \<and> length b \<le> n"
    by simp
  show ?thesis
    unfolding chunked_def using c s f by blast
qed

lemma queryAgentMetric_calls: "snd (queryAgentMetric agent c a) = [agentUrl c a]"
  by (simp add: queryAgentMetric_def axiosGet_def Let_def)

lemma batchStep_eq:
  "batchStep agent contexts batchSize i st =
     \<lparr> results = foldl categorize (results st)
                   (map (\<lambda>c. fst (queryAgentMetric agent c (-300)))
                      (jsSlice contexts i (i + batchSize))),
       requested = requested st
                     @ [map (\<lambda>c. agentUrl c (-300)) (jsSlice contexts i (i + batchSize))],
       pauses = (if i + batchSize < int (length contexts)
                 then pauses st @ [rateLimitDelay] else pauses st) \<rparr>"
proof -
  have "concat (map snd (map (\<lambda>c. queryAgentMetric agent c (-300)) xs))
          = map (\<lambda>c. agentUrl c (-300)) xs" for xs
    by (induction xs) (simp_all add: queryAgentMetric_calls)
  then show ?thesis
    by (simp add: batchStep_def Let_def comp_def)
qed

lemma testLoop_total:
  assumes "0 < b" "0 \<le> i"
  shows "\<exists>bs. testLoop agent cs b i st =
                Some \<lparr> results = foldl categorize (results st)
                                  (map (\<lambda>c. fst (queryAgentMetric agent c (-300))) (drop (nat i) cs)),
                       requested = requested st @ bs,
                       pauses = pauses st @ replicate (length bs - 1) rateLimitDelay \<rparr>
              \<and> chunked (nat b) (map (\<lambda>c. agentUrl c (-300)) (drop (nat i) cs)) bs"
  using assms(2)
proof (induction "nat (int (length cs) - i)" arbitrary: i st rule: less_induct)
  case less
  show ?case
  proof (cases "i < int (length cs)")
    case False
    with less.prems have d: "drop (nat i) cs = []"
      by simp
    have "testLoop agent cs b i st = Some st"
      using False by (subst testLoop.simps) simp
    with d show ?thesis
      by (intro exI [of _ "[]"]) (simp add: chunked_Nil)
  next
    case True
    let ?n = "nat b" and ?k = "nat i"
    let ?rest = "drop ?k cs"
    let ?batch = "take ?n ?rest"
    let ?st1 = "batchStep agent cs b i st"
    have slice: "jsSlice cs i (i + b) = ?batch"
      using less.prems assms(1) by (rule jsSlice_chunk)
    have nonempty: "?rest \<noteq> []"
      using True less.prems by simp
    have next_drop: "drop (nat (i + b)) cs = drop ?n ?rest"
      using less.prems assms(1) by (simp add: nat_add_distrib add.commute)
    have "nat (int (length cs) - (i + b)) < nat (int (length cs) - i)"
      using True assms(1) by simp
    moreover have "0 \<le> i + b"
      using less.prems assms(1) by simp
    ultimately obtain bs where
      run: "testLoop agent cs b (i + b) ?st1 =
              Some \<lparr> results = foldl categorize (results ?st1)
                                  (map (\<lambda>c. fst (queryAgentMetric agent c (-300))) (drop (nat (i + b)) cs)),
                     requested = requested ?st1 @ bs,
                     pauses = pauses ?st1 @ replicate (length bs - 1) rateLimitDelay \<rparr>" and
      ch: "chunked ?n (map (\<lambda>c. agentUrl c (-300)) (drop (nat (i + b)) cs)) bs"
      using less.hyps [of "i + b" ?st1] by blast
    have unfold: "testLoop agent cs b i st = testLoop agent cs b (i + b) ?st1"
      using True by (subst testLoop.simps) simp
    have res: "foldl categorize (results ?st1)
                 (map (\<lambda>c. fst (queryAgentMetric agent c (-300))) (drop (nat (i + b)) cs))
             = foldl categorize (results st) (map (\<lambda>c. fst (queryAgentMetric agent c (-300))) ?rest)"
    proof -
      have "map (\<lambda>c. fst (queryAgentMetric agent c (-300))) ?rest
          = map (\<lambda>c. fst (queryAgentMetric agent c (-300))) ?batch
            @ map (\<lambda>c. fst (queryAgentMetric agent c (-300))) (drop ?n ?rest)"
        by (metis append_take_drop_id map_append)
      then show ?thesis
        by (simp add: batchStep_eq slice next_drop)
    qed
    let ?urls = "map (\<lambda>c. agentUrl c (-300)) ?rest"
    have ch': "chunked ?n (drop ?n ?urls) bs"
      using ch by (simp add: next_drop drop_map)
    have "chunked ?n ?urls (take ?n ?urls # bs)"
      using ch' assms(1) nonempty by (intro chunked_Cons) auto
    then have chunks: "chunked ?n ?urls (map (\<lambda>c. agentUrl c (-300)) ?batch # bs)"
      by (simp add: take_map)
    have empty_iff: "bs = [] \<longleftrightarrow> \<not> i + b < int (length cs)"
    proof
      assume "bs = []"
      with ch have "drop (nat (i + b)) cs = []" by (simp add: chunked_def)
      then show "\<not> i + b < int (length cs)" using \<open>0 \<le> i + b\<close> by simp
    next
      assume "\<not> i + b < int (length cs)"
      then have "drop (nat (i + b)) cs = []" by simp
      with ch have "concat bs = []" "\<forall>x \<in> set bs. 0 < length x" by (auto simp: chunked_def)
      then show "bs = []" by (cases bs) auto
    qed
    have req: "requested ?st1 @ bs = requested st @ (map (\<lambda>c. agentUrl c (-300)) ?batch # bs)"
      by (simp add: batchStep_eq slice)
    have pau: "pauses ?st1 @ replicate (length bs - 1) rateLimitDelay
             = pauses st @ replicate (length (map (\<lambda>c. agentUrl c (-300)) ?batch # bs) - 1) rateLimitDelay"
    proof (cases "bs = []")
      case True
      with empty_iff show ?thesis by (simp add: batchStep_eq)
    next
      case False
      with empty_iff have "i + b < int (length cs)" by simp
      moreover from False have "replicate (length bs) rateLimitDelay
          = rateLimitDelay # replicate (length bs - 1) rateLimitDelay"
        by (cases bs) auto
      ultimately show ?thesis by (simp add: batchStep_eq)
    qed
    have "testLoop agent cs b i st =
            Some \<lparr> results = foldl categorize (results st)
                                (map (\<lambda>c. fst (queryAgentMetric agent c (-300))) ?rest),
                   requested = requested st @ (map (\<lambda>c. agentUrl c (-300)) ?batch # bs),
                   pauses = pauses st @ replicate
                              (length (map (\<lambda>c. agentUrl c (-300)) ?batch # bs) - 1) rateLimitDelay \<rparr>"
      by (simp only: unfold run res req pau)
    with chunks show ?thesis
      by blast
  qed
qed

lemma categorize_lists:
  "errorsList (categorize res r) = errorsList res @ filter (\<lambda>r. truthy (error r)) [r]"
  "activeList (categorize res r) = activeList res @ filter (\<lambda>r. \<not> truthy (error r) \<and> truthyValue (active r)) [r]"
  "inactiveList (categorize res r) = inactiveList res @ filter (\<lambda>r. \<not> truthy (error r) \<and> \<not> truthyValue (active r)) [r]"
  by (simp_all add: categorize_def Let_def)

lemma categorize_summary:
  "errorCount (summary (categorize res r)) = errorCount (summary res) + length (filter (\<lambda>r. truthy (error r)) [r])"
  "activeCount (summary (categorize res r)) = activeCount (summary res) + length (filter (\<lambda>r. \<not> truthy (error r) \<and> truthyValue (active r)) [r])"
  "inactiveCount (summary (categorize res r)) = inactiveCount (summary res) + length (filter (\<lambda>r. \<not> truthy (error r) \<and> \<not> truthyValue (active r)) [r])"
  "tested (summary (categorize res r)) = tested (summary res) + 1"
  "total' (summary (categorize res r)) = total' (summary res)"
  by (simp_all add: categorize_def Let_def)

lemma foldl_categorize_lists:
  "errorsList (foldl categorize res rs) = errorsList res @ filter (\<lambda>r. truthy (error r)) rs"
  "activeList (foldl categorize res rs) = activeList res @ filter (\<lambda>r. \<not> truthy (error r) \<and> truthyValue (active r)) rs"
  "inactiveList (foldl categorize res rs) = inactiveList res @ filter (\<lambda>r. \<not> truthy (error r) \<and> \<not> truthyValue (active r)) rs"
  by (induction rs arbitrary: res; simp add: categorize_lists)+

lemma foldl_categorize_summary:
  "errorCount (summary (foldl categorize res rs)) = errorCount (summary res) + length (filter (\<lambda>r. truthy (error r)) rs)"
  "activeCount (summary (foldl categorize res rs)) = activeCount (summary res) + length (filter (\<lambda>r. \<not> truthy (error r) \<and> truthyValue (active r)) rs)"
  "inactiveCount (summary (foldl categorize res rs)) = inactiveCount (summary res) + length (filter (\<lambda>r. \<not> truthy (error r) \<and> \<not> truthyValue (active r)) rs)"
  "tested (summary (foldl categorize res rs)) = tested (summary res) + length rs"
  "total' (summary (foldl categorize res rs)) = total' (summary res)"
  by (induction rs arbitrary: res; simp add: categorize_summary)+

lemma hasDataOf_truthy: "truthyValue (hasDataOf d) \<Longrightarrow> hasDataOf d = JBoolean True"
  by (cases d) (simp_all add: hasDataOf_def split: if_splits)

lemma queryAgentMetric_fields:
  "context_id (fst (queryAgentMetric agent c a)) = c"
  "truthyValue (active (fst (queryAgentMetric agent c a))) \<Longrightarrow>
     active (fst (queryAgentMetric agent c a)) = JBoolean True
   \<and> error (fst (queryAgentMetric agent c a)) = None"
proof -
  show "context_id (fst (queryAgentMetric agent c a)) = c"
    by (cases "agent (agentUrl c a)") (simp_all add: queryAgentMetric_def axiosGet_def Let_def)
  assume t: "truthyValue (active (fst (queryAgentMetric agent c a)))"
  show "active (fst (queryAgentMetric agent c a)) = JBoolean True
      \<and> error (fst (queryAgentMetric agent c a)) = None"
  proof (cases "agent (agentUrl c a)")
    case (Inl msg)
    with t show ?thesis
      by (simp add: queryAgentMetric_def axiosGet_def Let_def)
  next
    case (Inr response)
    with t have "truthyValue (hasDataOf (reply_data response))"
      by (simp add: queryAgentMetric_def axiosGet_def Let_def)
    then have "hasDataOf (reply_data response) = JBoolean True"
      by (rule hasDataOf_truthy)
    with Inr show ?thesis
      by (simp add: queryAgentMetric_def axiosGet_def Let_def)
  qed
qed

lemma testMetricsInBatches_total:
  assumes "0 < batchSize"
  shows "\<exists>bs. testMetricsInBatches agent contexts batchSize =
                Some \<lparr> results = foldl categorize (initialResults contexts)
                                  (map (\<lambda>c. fst (queryAgentMetric agent c (-300))) contexts),
                       requested = bs,
                       pauses = replicate (length bs - 1) rateLimitDelay \<rparr>
              \<and> chunked (nat batchSize) (map (\<lambda>c. agentUrl c (-300)) contexts) bs"
  using testLoop_total [OF assms, of 0 agent contexts
          "\<lparr> results = initialResults contexts, requested = [], pauses = [] \<rparr>"]
  by (simp add: testMetricsInBatches_def)

lemma testMetricsInBatches_empty:
  "testMetricsInBatches agent [] batchSize =
     Some \<lparr> results = initialResults [], requested = [], pauses = [] \<rparr>"
  unfolding testMetricsInBatches_def by (subst testLoop.simps) simp

lemma testMetricsInBatches_diverges:
  "batchSize \<le> 0 \<Longrightarrow> contexts \<noteq> [] \<Longrightarrow> testMetricsInBatches agent contexts batchSize = None"
  unfolding testMetricsInBatches_def by (rule testLoop_diverges) simp_all

text \<open>
  C1, as the code has it.  For a positive \<open>batchSize\<close>, \<open>testMetricsInBatches\<close> returns;
  the batches of agent requests it has issued are the consecutive chunks of size
  \<open>batchSize\<close> of the input (concatenated they are the requests for the input in order,
  every batch has between 1 and \<open>batchSize\<close> requests, every batch but the last has
  exactly \<open>batchSize\<close>), and \<open>summary.tested\<close> and \<open>summary.total\<close> are the length of the
  input.  An empty input gives the zero-filled summary for any \<open>batchSize\<close>.  With
  \<open>batchSize \<le> 0\<close> and a non-empty input the loop never returns: there is no single
  batch covering the whole list.
\<close>

theorem testMetricsInBatches_chunks:
  "(0 < batchSize \<longrightarrow>
      (\<exists>st. testMetricsInBatches agent contexts batchSize = Some st
          \<and> chunked (nat batchSize) (map (\<lambda>c. agentUrl c (-300)) contexts) (requested st)
          \<and> tested (summary (results st)) = length contexts
          \<and> total' (summary (results st)) = length contexts))
 \<and> (contexts = [] \<longrightarrow>
      testMetricsInBatches agent contexts batchSize =
        Some \<lparr> results = \<lparr> activeList = [], inactiveList = [], errorsList = [],
                           summary = \<lparr> total' = 0, tested = 0, activeCount = 0,
                                       inactiveCount = 0, errorCount = 0 \<rparr> \<rparr>,
               requested = [], pauses = [] \<rparr>)
 \<and> (batchSize \<le> 0 \<and> contexts \<noteq> [] \<longrightarrow> testMetricsInBatches agent contexts batchSize = None)"
proof (intro conjI impI)
  assume "0 < batchSize"
  from testMetricsInBatches_total [OF this, of agent contexts]
  obtain bs where
    run: "testMetricsInBatches agent contexts batchSize =
            Some \<lparr> results = foldl categorize (initialResults contexts)
                                  (map (\<lambda>c. fst (queryAgentMetric agent c (-300))) contexts),
                   requested = bs,
                   pauses = replicate (length bs - 1) rateLimitDelay \<rparr>" and
    ch: "chunked (nat batchSize) (map (\<lambda>c. agentUrl c (-300)) contexts) bs"
    by blast
  show "\<exists>st. testMetricsInBatches agent contexts batchSize = Some st
          \<and> chunked (nat batchSize) (map (\<lambda>c. agentUrl c (-300)) contexts) (requested st)
          \<and> tested (summary (results st)) = length contexts
          \<and> total' (summary (results st)) = length contexts"
    unfolding run using ch
    by (simp add: foldl_categorize_summary initialResults_def)
next
  assume "contexts = []"
  then show "testMetricsInBatches agent contexts batchSize =
        Some \<lparr> results = \<lparr> activeList = [], inactiveList = [], errorsList = [],
                           summary = \<lparr> total' = 0, tested = 0, activeCount = 0,
                                       inactiveCount = 0, errorCount = 0 \<rparr> \<rparr>,
               requested = [], pauses = [] \<rparr>"
    by (simp add: testMetricsInBatches_empty initialResults_def)
next
  assume "batchSize \<le> 0 \<and> contexts \<noteq> []"
  then show "testMetricsInBatches agent contexts batchSize = None"
    by (simp add: testMetricsInBatches_diverges)
qed

lemma agentUrl_300:
  "agentUrl c (-300) = ''http://216.153.63.25:19999/api/v1/data?context='' @ c @ ''&after=-300&before=0''"
  by (simp add: agentUrl_def sandboxHost_def showInt_def showNat.simps decimalDigits_def)

lemmas probe_eval = testMetricsInBatches_def testLoop.simps batchStep_def jsSlice_def
  queryAgentMetric_def axiosGet_def hasDataOf_def categorize_def agentUrl_300
  initialResults_def truthy_def rateLimitDelay_def Let_def

lemma sample_run:
  "testMetricsInBatches sampleAgent [''net.eth0'', ''disk.io'', ''mem.free''] 2 =
     Some \<lparr> results =
              \<lparr> activeList = [\<lparr> context_id = ''net.eth0'', active = JBoolean True, dataPoints = 2,
                                labels = [''time'', ''received''],
                                lastValue = Some ''[1700000000, 12.5]'', error = None \<rparr>],
                inactiveList = [\<lparr> context_id = ''disk.io'', active = JBoolean False, dataPoints = 0,
                                  labels = [''time''], lastValue = None, error = None \<rparr>],
                errorsList = [\<lparr> context_id = ''mem.free'', active = JBoolean False, dataPoints = 0,
                                labels = [], lastValue = None,
                                error = Some ''Request failed with status code 404'' \<rparr>],
                summary = \<lparr> total' = 3, tested = 3, activeCount = 1, inactiveCount = 1,
                            errorCount = 1 \<rparr> \<rparr>,
            requested =
              [[''http://216.153.63.25:19999/api/v1/data?context=net.eth0&after=-300&before=0'',
                ''http://216.153.63.25:19999/api/v1/data?context=disk.io&after=-300&before=0''],
               [''http://216.153.63.25:19999/api/v1/data?context=mem.free&after=-300&before=0'']],
            pauses = [100] \<rparr>"
  by (simp add: probe_eval sampleAgent_def)

theorem testMetricsInBatches_chunks_witness:
  "(0::int) < 2
   \<and> (\<exists>st. testMetricsInBatches sampleAgent [''net.eth0'', ''disk.io'', ''mem.free''] 2 = Some st
         \<and> chunked 2 (map (\<lambda>c. agentUrl c (-300)) [''net.eth0'', ''disk.io'', ''mem.free'']) (requested st)
         \<and> tested (summary (results st)) = 3
         \<and> total' (summary (results st)) = 3)
   \<and> testMetricsInBatches sampleAgent [] 0 =
        Some \<lparr> results = \<lparr> activeList = [], inactiveList = [], errorsList = [],
                           summary = \<lparr> total' = 0, tested = 0, activeCount = 0,
                                       inactiveCount = 0, errorCount = 0 \<rparr> \<rparr>,
               requested = [], pauses = [] \<rparr>
   \<and> testMetricsInBatches sampleAgent [''net.eth0'', ''disk.io'', ''mem.free''] (-1) = None"
  using testMetricsInBatches_chunks [of 2 sampleAgent "[''net.eth0'', ''disk.io'', ''mem.free'']"]
        testMetricsInBatches_chunks [of 0 sampleAgent "[]"]
        testMetricsInBatches_chunks [of "-1" sampleAgent "[''net.eth0'', ''disk.io'', ''mem.free'']"]
  by (simp add: numeral_3_eq_3)

text \<open>
  C1 as stated fails: with \<open>batchSize = 0\<close> and one identifier the call does not return,
  so there is no summary whose \<open>tested\<close> is 1.
\<close>

theorem testMetricsInBatches_zero_batch_counterexample:
  "testMetricsInBatches sampleAgent [''net.eth0''] 0 = None"
  by (simp add: testMetricsInBatches_diverges)

lemma partition3:
  "mset (filter (\<lambda>r. \<not> truthy (error r) \<and> truthyValue (active r)) rs)
   + mset (filter (\<lambda>r. \<not> truthy (error r) \<and> \<not> truthyValue (active r)) rs)
   + mset (filter (\<lambda>r. truthy (error r)) rs) = mset rs"
  by (induction rs) auto

lemma falsy_error: "\<not> truthy e \<Longrightarrow> e = None \<or> e = Some []"
  by (cases e) (simp_all add: truthy_def)

lemma truthy_error: "truthy e \<Longrightarrow> \<exists>m. e = Some m \<and> m \<noteq> []"
  by (cases e) (simp_all add: truthy_def)

text \<open>
  What holds of the three lists for a positive \<open>batchSize\<close>: the call returns; the
  lists \<open>active\<close>, \<open>inactive\<close> and \<open>errors\<close> are pairwise disjoint and jointly hold every
  probe result exactly once; the three counts are the lengths of the lists and \<open>tested\<close>
  is their sum; every element of \<open>errors\<close> has a non-empty error message; every element
  of \<open>active\<close> has \<open>active = true\<close> and \<open>error = null\<close>.  Of an element of \<open>inactive\<close>
  only this holds: its \<open>active\<close> and its \<open>error\<close> are falsy.
\<close>

lemma probe_results_partition:
  assumes "0 < batchSize"
  shows "\<exists>st. testMetricsInBatches agent contexts batchSize = Some st
     \<and> mset (activeList (results st)) + mset (inactiveList (results st))
         + mset (errorsList (results st))
         = mset (map (\<lambda>c. fst (queryAgentMetric agent c (-300))) contexts)
     \<and> set (activeList (results st)) \<inter> set (inactiveList (results st)) = {}
     \<and> set (activeList (results st)) \<inter> set (errorsList (results st)) = {}
     \<and> set (inactiveList (results st)) \<inter> set (errorsList (results st)) = {}
     \<and> activeCount (summary (results st)) = length (activeList (results st))
     \<and> inactiveCount (summary (results st)) = length (inactiveList (results st))
     \<and> errorCount (summary (results st)) = length (errorsList (results st))
     \<and> tested (summary (results st))
         = length (activeList (results st)) + length (inactiveList (results st))
           + length (errorsList (results st))
     \<and> (\<forall>r \<in> set (errorsList (results st)). \<exists>m. error r = Some m \<and> m \<noteq> [])
     \<and> (\<forall>r \<in> set (activeList (results st)). active r = JBoolean True \<and> error r = None)
     \<and> (\<forall>r \<in> set (inactiveList (results st)).
           \<not> truthyValue (active r) \<and> (error r = None \<or> error r = Some []))"
proof -
  let ?rs = "map (\<lambda>c. fst (queryAgentMetric agent c (-300))) contexts"
  let ?R = "foldl categorize (initialResults contexts) ?rs"
  from testMetricsInBatches_total [OF assms, of agent contexts]
  obtain bs where
    run: "testMetricsInBatches agent contexts batchSize =
            Some \<lparr> results = ?R, requested = bs,
                   pauses = replicate (length bs - 1) rateLimitDelay \<rparr>"
    by blast
  have A: "activeList ?R = filter (\<lambda>r. \<not> truthy (error r) \<and> truthyValue (active r)) ?rs"
    and I: "inactiveList ?R = filter (\<lambda>r. \<not> truthy (error r) \<and> \<not> truthyValue (active r)) ?rs"
    and E: "errorsList ?R = filter (\<lambda>r. truthy (error r)) ?rs"
    by (simp_all add: foldl_categorize_lists initialResults_def)
  have part: "mset (activeList ?R) + mset (inactiveList ?R) + mset (errorsList ?R) = mset ?rs"
    unfolding A I E by (rule partition3)
  have d1: "set (activeList ?R) \<inter> set (inactiveList ?R) = {}"
    unfolding A I by auto
  have d2: "set (activeList ?R) \<inter> set (errorsList ?R) = {}"
    unfolding A E by auto
  have d3: "set (inactiveList ?R) \<inter> set (errorsList ?R) = {}"
    unfolding I E by auto
  have c1: "activeCount (summary ?R) = length (activeList ?R)"
    and c2: "inactiveCount (summary ?R) = length (inactiveList ?R)"
    and c3: "errorCount (summary ?R) = length (errorsList ?R)"
    unfolding A I E by (simp_all add: foldl_categorize_summary initialResults_def)
  have "size (mset (activeList ?R) + mset (inactiveList ?R) + mset (errorsList ?R)) = size (mset ?rs)"
    by (simp only: part)
  then have t: "tested (summary ?R)
      = length (activeList ?R) + length (inactiveList ?R) + length (errorsList ?R)"
    by (simp add: foldl_categorize_summary initialResults_def)
  have e: "\<forall>r \<in> set (errorsList ?R). \<exists>m. error r = Some m \<and> m \<noteq> []"
    unfolding E by (simp add: truthy_error)
  have a: "\<forall>r \<in> set (activeList ?R). active r = JBoolean True \<and> error r = None"
    unfolding A using queryAgentMetric_fields(2) by auto
  have i: "\<forall>r \<in> set (inactiveList ?R).
             \<not> truthyValue (active r) \<and> (error r = None \<or> error r = Some [])"
    unfolding I using falsy_error by auto
  show ?thesis
    unfolding run using part d1 d2 d3 c1 c2 c3 t e a i by simp
qed

text \<open>
  C8 fails on the code.  \<open>hasData\<close> is the value of
  \<open>response.data.data && Array.isArray(response.data.data) && response.data.data.length > 0\<close>,
  which is \<open>undefined\<close>, not \<open>false\<close>, when the reply has no \<open>data\<close> member, and
  \<open>queryAgentMetric\<close> stores it as \<open>active\<close> without converting it, although the interface
  \<open>MetricResult\<close> declares \<open>active: boolean\<close>.  When the agent answers with a body that
  has no \<open>data\<close> member, the result in \<open>inactive\<close> has \<open>active = undefined\<close>, where C8 has
  \<open>active = false\<close> for every element of \<open>inactive\<close>.
\<close>

theorem inactive_result_with_undefined_active:
  "testMetricsInBatches bareAgent [''net.eth0''] 5 =
     Some \<lparr> results =
              \<lparr> activeList = [],
                inactiveList = [\<lparr> context_id = ''net.eth0'', active = JUndefined, dataPoints = 0,
                                  labels = [''time''], lastValue = None, error = None \<rparr>],
                errorsList = [],
                summary = \<lparr> total' = 1, tested = 1, activeCount = 0, inactiveCount = 1,
                            errorCount = 0 \<rparr> \<rparr>,
            requested =
              [[''http://216.153.63.25:19999/api/v1/data?context=net.eth0&after=-300&before=0'']],
            pauses = [] \<rparr>
   \<and> active (hd (inactiveList (results (the (testMetricsInBatches bareAgent [''net.eth0''] 5)))))
       \<noteq> JBoolean False"
  by (simp add: probe_eval bareAgent_def)

section \<open>Room lookup\<close>

lemma sublist_prepend: "sublist x y \<Longrightarrow> sublist x (p @ y)"
proof -
  assume "sublist x y"
  then obtain ps ss where "y = ps @ x @ ss"
    by (auto simp: sublist_def)
  then have "p @ y = (p @ ps) @ x @ ss"
    by simp
  then show ?thesis
    unfolding sublist_def by blast
qed

lemma join_contains: "x \<in> set xs \<Longrightarrow> sublist x (join sep xs)"
proof (induction sep xs rule: join.induct)
  case (1 sep)
  then show ?case by simp
next
  case (2 sep x')
  then show ?case by simp
next
  case (3 sep x' y ys)
  show ?case
  proof (cases "x = x'")
    case True
    have "sublist x (x @ (sep @ join sep (y # ys)))"
      by (rule sublist_append_rightI)
    with True show ?thesis by simp
  next
    case False
    with 3 have "sublist x (join sep (y # ys))" by simp
    then have "sublist x ((x' @ sep) @ join sep (y # ys))"
      by (rule sublist_prepend)
    then show ?thesis by simp
  qed
qed

lemma getProperty_undefined:
  assumes "name \<notin> set (keys obj)" "name \<notin> set objectPrototypeKeys"
  shows "getProperty obj name = UndefinedProperty"
proof -
  have "map_of obj name = None"
    using assms(1) by (simp add: map_of_eq_None_iff keys_def)
  with assms(2) show ?thesis
    by (simp add: getProperty_def)
qed

text \<open>
  C6, as the code has it.  For every non-empty room name that is neither a key of the
  static room-ID table nor the name of a member inherited from \<open>Object.prototype\<close>,
  \<open>getRoomContexts\<close> and \<open>getRoomNodes\<close> return, with no request sent, the text
  \<open>Room "<name>" not found. Available rooms: <names>\<close>: it contains \<open>not found\<close> and
  every registered room name.
\<close>

theorem room_lookup_not_found:
  assumes "name \<noteq> []" "name \<notin> set (keys ROOM_IDS)" "name \<notin> set objectPrototypeKeys"
    and "arg_room_name args = Some name"
  shows "getRoomContexts w (Some args)
           = (textResponse (''Room '' @ dquote @ name @ dquote @ '' not found. Available rooms: ''
                              @ join '', '' (keys ROOM_IDS)), [])
       \<and> getRoomNodes w (Some args)
           = (textResponse (''Room '' @ dquote @ name @ dquote @ '' not found. Available rooms: ''
                              @ join '', '' (keys ROOM_IDS)), [])
       \<and> sublist ''not found''
            (''Room '' @ dquote @ name @ dquote @ '' not found. Available rooms: ''
               @ join '', '' (keys ROOM_IDS))
       \<and> (\<forall>room \<in> set (keys ROOM_IDS).
             sublist room (''Room '' @ dquote @ name @ dquote @ '' not found. Available rooms: ''
                             @ join '', '' (keys ROOM_IDS)))"
proof -
  have u: "getProperty ROOM_IDS name = UndefinedProperty"
    using assms(2,3) by (rule getProperty_undefined)
  have c: "getRoomContexts w (Some args)
           = (textResponse (''Room '' @ dquote @ name @ dquote @ '' not found. Available rooms: ''
                              @ join '', '' (keys ROOM_IDS)), [])"
    using assms(1,4) by (simp add: getRoomContexts_def argsOrEmpty_def truthy_def u)
  have n: "getRoomNodes w (Some args)
           = (textResponse (''Room '' @ dquote @ name @ dquote @ '' not found. Available rooms: ''
                              @ join '', '' (keys ROOM_IDS)), [])"
    using assms(1,4) by (simp add: getRoomNodes_def argsOrEmpty_def truthy_def u)
  have "sublist ''not found'' ((''Room '' @ dquote @ name @ dquote @ '' '') @ ''not found'' @ (''. Available rooms: '' @ join '', '' (keys ROOM_IDS)))"
    by (rule sublist_appendI)
  then have s: "sublist ''not found''
            (''Room '' @ dquote @ name @ dquote @ '' not found. Available rooms: ''
               @ join '', '' (keys ROOM_IDS))"
    by simp
  have r: "sublist room (''Room '' @ dquote @ name @ dquote @ '' not found. Available rooms: ''
                             @ join '', '' (keys ROOM_IDS))" if "room \<in> set (keys ROOM_IDS)" for room
  proof -
    from that have "sublist room (join '', '' (keys ROOM_IDS))"
      by (rule join_contains)
    then have "sublist room ((''Room '' @ dquote @ name @ dquote @ '' not found. Available rooms: '') @ join '', '' (keys ROOM_IDS))"
      by (rule sublist_prepend)
    then show ?thesis by simp
  qed
  from c n s r show ?thesis by blast
qed

lemmas handler_eval = getRoomContexts_def getRoomNodes_def argsOrEmpty_def noArgs_def truthy_def
  getProperty_def ROOM_IDS_def objectPrototypeKeys_def inheritedText_def keys_def textResponse_def
  makeCloudRequest_def axiosGet_def Let_def

theorem room_lookup_not_found_witness:
  "''nope'' \<noteq> [] \<and> ''nope'' \<notin> set (keys ROOM_IDS) \<and> ''nope'' \<notin> set objectPrototypeKeys
   \<and> getRoomContexts sampleWorld (Some (noArgs\<lparr> arg_room_name := Some ''nope'' \<rparr>))
       = (textResponse (''Room '' @ dquote @ ''nope'' @ dquote
            @ '' not found. Available rooms: valdi-sdg-h100, colo-he-nucs, colo-he-proxmox2, evergreen-rtx-4090, cato-v100, all-nodes, valdi-wdc-h100, colo-he-proxmox, nebulablock-dfw-4090, coreweave-sandbox''), [])
   \<and> getRoomNodes sampleWorld (Some (noArgs\<lparr> arg_room_name := Some ''nope'' \<rparr>))
       = (textResponse (''Room '' @ dquote @ ''nope'' @ dquote
            @ '' not found. Available rooms: valdi-sdg-h100, colo-he-nucs, colo-he-proxmox2, evergreen-rtx-4090, cato-v100, all-nodes, valdi-wdc-h100, colo-he-proxmox, nebulablock-dfw-4090, coreweave-sandbox''), [])"
proof -
  have h: "''nope'' \<noteq> []" "''nope'' \<notin> set (keys ROOM_IDS)" "''nope'' \<notin> set objectPrototypeKeys"
    "arg_room_name (noArgs\<lparr> arg_room_name := Some ''nope'' \<rparr>) = Some ''nope''"
    by (simp_all add: keys_def ROOM_IDS_def objectPrototypeKeys_def)
  have k: "join '', '' (keys ROOM_IDS) = ''valdi-sdg-h100, colo-he-nucs, colo-he-proxmox2, evergreen-rtx-4090, cato-v100, all-nodes, valdi-wdc-h100, colo-he-proxmox, nebulablock-dfw-4090, coreweave-sandbox''"
    by (simp add: keys_def ROOM_IDS_def)
  from room_lookup_not_found [OF h, of sampleWorld] h show ?thesis
    by (simp add: k)
qed

text \<open>
  C6 as stated fails at the empty name, which is not in the table: the handlers check
  the presence of \<open>room_name\<close> first (\<open>if (!room_name)\<close>) and answer an empty name with
  \<open>Error: room_name parameter is required\<close>, a text without \<open>not found\<close> and without the
  room names.  No request is sent.
\<close>

theorem room_lookup_counterexample:
  "'''' \<notin> set (keys ROOM_IDS)
   \<and> getRoomContexts sampleWorld (Some (noArgs\<lparr> arg_room_name := Some '''' \<rparr>))
       = (textResponse ''Error: room_name parameter is required'', [])
   \<and> getRoomNodes sampleWorld (Some (noArgs\<lparr> arg_room_name := Some '''' \<rparr>))
       = (textResponse ''Error: room_name parameter is required'', [])
   \<and> \<not> sublist ''not found'' ''Error: room_name parameter is required''"
  by (simp add: handler_eval sublist_code)

text \<open>
  The names left out above are those of the members that an object literal inherits.
  The branch \<open>if (!roomId)\<close> is there to answer \<open>not found\<close> for a name that is not in the
  table, but it tests the truthiness of \<open>ROOM_IDS[room_name]\<close>, and for such a name this
  reads the inherited member, which is truthy.  This is a slip of the code: the branch
  is missed, and the member's text is put into the URL of a request.
\<close>

lemma room_lookup_inherited_name:
  "''toString'' \<notin> set (keys ROOM_IDS)
   \<and> getProperty ROOM_IDS ''toString'' = InheritedProperty ''function toString() { [native code] }''
   \<and> snd (getRoomContexts sampleWorld (Some (noArgs\<lparr> arg_room_name := Some ''toString'' \<rparr>)))
       = [''https://app.netdata.cloud/api/v2/spaces/space1/rooms/function toString() { [native code] }/contexts'']"
  by (simp add: handler_eval sampleWorld_def sampleConfig_def)

section \<open>Metric activity tools\<close>


lemma METRIC_CATEGORIES_own:
  "\<forall>(n, p) \<in> set METRIC_CATEGORIES. getProperty METRIC_CATEGORIES n = OwnProperty p"
  by (simp add: METRIC_CATEGORIES_def getProperty_def)











lemmas activity_eval = testCategoryMetricsActivity_def getActiveMetricsSummary_def
  getRoomContexts_def argsOrEmpty_def noArgs_def truthy_def getProperty_def ROOM_IDS_def
  textResponse_def contentText_def makeCloudRequest_def axiosGet_def filterContextsByCategory_def
  METRIC_CATEGORIES_def startsWith_def sampleWorld_def sampleConfig_def sampleParse_def
  sampleContextsText_def sampleContexts_def sampleStringify_def showNat.simps decimalDigits_def
  Let_def




lemma activeRateOf_zero: "activeRateOf 0 0 = ''NaN''"
  by (simp add: activeRateOf_def toFixed1_def)

lemma categoryLoop_zero_sample:
  assumes "\<forall>(n, p) \<in> set cats. getProperty METRIC_CATEGORIES n = OwnProperty p"
  shows "categoryLoop agent allContexts 0 cats acc =
           Some (acc\<lparr> categoryResults := categoryResults acc @
                   map (\<lambda>(n, p). (n, \<lparr> totalAvailable =
                                          length (filter (\<lambda>c. \<exists>x \<in> set p. startsWith c x) allContexts),
                                        stat_tested = 0, stat_active = 0, activeRate = ''NaN'',
                                        stat_error = None \<rparr>))
                     (filter (\<lambda>(n, p). \<exists>c \<in> set allContexts. \<exists>x \<in> set p. startsWith c x) cats) \<rparr>)"
  using assms
proof (induction cats arbitrary: acc)
  case Nil
  show ?case by simp
next
  case (Cons entry rest)
  obtain n p where entry: "entry = (n, p)"
    by (cases entry)
  let ?cc = "filter (\<lambda>c. \<exists>x \<in> set p. startsWith c x) allContexts"
  from Cons.prems entry have own: "getProperty METRIC_CATEGORIES n = OwnProperty p"
    by simp
  then have f: "filterContextsByCategory allContexts n = Inr ?cc"
    by (simp add: filterContextsByCategory_def list_ex_iff)
  from Cons.prems have rest: "\<forall>(n, p) \<in> set rest. getProperty METRIC_CATEGORIES n = OwnProperty p"
    by simp
  have ne: "?cc \<noteq> [] \<longleftrightarrow> (\<exists>c \<in> set allContexts. \<exists>x \<in> set p. startsWith c x)"
    by (simp add: filter_empty_conv)
  show ?case
  proof (cases "?cc = []")
    case True
    with ne have "\<not> (\<exists>c \<in> set allContexts. \<exists>x \<in> set p. startsWith c x)"
      by simp
    then show ?thesis
      using Cons.IH [OF rest, of acc] by (simp add: entry f True)
  next
    case False
    with ne have m: "\<exists>c \<in> set allContexts. \<exists>x \<in> set p. startsWith c x"
      by simp
    have sl: "jsSlice ?cc 0 0 = []"
      by (simp add: jsSlice_def)
    let ?acc1 = "\<lparr> categoryResults = categoryResults acc @
                      [(n, \<lparr> totalAvailable = length ?cc, stat_tested = 0, stat_active = 0,
                             activeRate = ''NaN'', stat_error = None \<rparr>)],
                   totalActive = totalActive acc, totalTested = totalTested acc,
                   probes = probes acc \<rparr>"
    have step: "categoryLoop agent allContexts 0 (entry # rest) acc
        = categoryLoop agent allContexts 0 rest ?acc1"
      using False
      by (simp add: entry f sl testMetricsInBatches_empty initialResults_def activeRateOf_zero)
    show ?thesis
      unfolding step Cons.IH [OF rest, of ?acc1] using m by (simp add: entry)
  qed
qed


text \<open>
  C10.  With \<open>sample_size = 0\<close>, a room name and contexts parsed for the room,
  \<open>getActiveMetricsSummary\<close> returns a report in which every category of
  \<open>METRIC_CATEGORIES\<close> with at least one matching context has an entry, and every entry
  has \<open>tested = 0\<close>, \<open>active = 0\<close> and the \<open>activeRate\<close> \<open>"NaN"\<close> (from \<open>0 / 0\<close>), printed
  in the category breakdown as \<open>0/0 active (NaN%)\<close>; the totals are 0 and the overall rate
  is \<open>"0.0"\<close>.
\<close>

theorem zero_sample_size_rate_NaN:
  assumes "arg_room_name args = Some name" "name \<noteq> []" "arg_sample_size args = Some 0"
    and "parseContexts w (contentText (fst (getRoomContexts w
           (Some (noArgs\<lparr> arg_room_name := Some name \<rparr>))))) = Inr allContexts"
  shows "\<exists>stats calls.
      getActiveMetricsSummary w (Some args)
        = Some (\<lparr> content = [ActiveMetricsSummaryReport name 0 (length allContexts) stats
                                0 0 ''0.0''] \<rparr>, calls)
    \<and> (\<forall>(cat, pfxs) \<in> set METRIC_CATEGORIES.
          (\<exists>c \<in> set allContexts. \<exists>p \<in> set pfxs. startsWith c p) \<longrightarrow>
          (\<exists>s. (cat, s) \<in> set stats
              \<and> totalAvailable s
                  = length (filter (\<lambda>c. \<exists>p \<in> set pfxs. startsWith c p) allContexts)))
    \<and> (\<forall>(cat, s) \<in> set stats.
          stat_tested s = 0 \<and> stat_active s = 0 \<and> activeRate s = ''NaN''
        \<and> categoryLine (cat, s)
            = padEnd 15 cat @ '': 0/0 active (NaN%) of '' @ showNat (totalAvailable s)
                @ '' available'')"
proof -
  let ?f = "\<lambda>(n, p). (n, \<lparr> totalAvailable =
                                length (filter (\<lambda>c. \<exists>x \<in> set p. startsWith c x) allContexts),
                              stat_tested = 0, stat_active = 0, activeRate = ''NaN'',
                              stat_error = None \<rparr>)"
  let ?g = "\<lambda>(n, p). \<exists>c \<in> set allContexts. \<exists>x \<in> set p. startsWith c x"
  let ?stats = "map ?f (filter ?g METRIC_CATEGORIES)"
  let ?acc0 = "\<lparr> categoryResults = [], totalActive = 0, totalTested = 0, probes = [] \<rparr>"
  have loop: "categoryLoop (agentData w) allContexts 0 METRIC_CATEGORIES ?acc0
      = Some (?acc0\<lparr> categoryResults := categoryResults ?acc0 @ ?stats \<rparr>)"
    using METRIC_CATEGORIES_own by (rule categoryLoop_zero_sample)
  have run: "getActiveMetricsSummary w (Some args)
      = Some (\<lparr> content = [ActiveMetricsSummaryReport name 0 (length allContexts) ?stats
                              0 0 ''0.0''] \<rparr>,
              snd (getRoomContexts w (Some (noArgs\<lparr> arg_room_name := Some name \<rparr>))))"
    using assms
    by (simp add: getActiveMetricsSummary_def argsOrEmpty_def truthy_def Let_def case_prod_beta loop)
  have avail: "\<forall>(cat, pfxs) \<in> set METRIC_CATEGORIES.
          (\<exists>c \<in> set allContexts. \<exists>p \<in> set pfxs. startsWith c p) \<longrightarrow>
          (\<exists>s. (cat, s) \<in> set ?stats
              \<and> totalAvailable s
                  = length (filter (\<lambda>c. \<exists>p \<in> set pfxs. startsWith c p) allContexts))"
    by force
  have rates: "\<forall>(cat, s) \<in> set ?stats.
          stat_tested s = 0 \<and> stat_active s = 0 \<and> activeRate s = ''NaN''
        \<and> categoryLine (cat, s)
            = padEnd 15 cat @ '': 0/0 active (NaN%) of '' @ showNat (totalAvailable s)
                @ '' available''"
    by (auto simp: categoryLine_def truthy_def showNat.simps decimalDigits_def)
  from run avail rates show ?thesis
    by blast
qed

lemma sample_summary_run:
  "getActiveMetricsSummary sampleWorld
      (Some (noArgs\<lparr> arg_room_name := Some ''cato-v100'', arg_sample_size := Some 0 \<rparr>))
   = Some (\<lparr> content =
              [ActiveMetricsSummaryReport ''cato-v100'' 0 4
                 [(''network'', \<lparr> totalAvailable = 2, stat_tested = 0, stat_active = 0,
                                  activeRate = ''NaN'', stat_error = None \<rparr>),
                  (''disk'', \<lparr> totalAvailable = 1, stat_tested = 0, stat_active = 0,
                               activeRate = ''NaN'', stat_error = None \<rparr>),
                  (''memory'', \<lparr> totalAvailable = 1, stat_tested = 0, stat_active = 0,
                                 activeRate = ''NaN'', stat_error = None \<rparr>)]
                 0 0 ''0.0''] \<rparr>,
           [''https://app.netdata.cloud/api/v2/spaces/space1/rooms/72789f00-8cc4-48e3-90a0-3ea87170eb6a/contexts''])"
  by (simp add: activity_eval jsSlice_def testMetricsInBatches_empty initialResults_def
        activeRateOf_zero)


theorem zero_sample_size_rate_NaN_witness:
  "arg_room_name (noArgs\<lparr> arg_room_name := Some ''cato-v100'', arg_sample_size := Some 0 \<rparr>)
      = Some ''cato-v100''
 \<and> ''cato-v100'' \<noteq> []
 \<and> arg_sample_size (noArgs\<lparr> arg_room_name := Some ''cato-v100'', arg_sample_size := Some 0 \<rparr>)
      = Some 0
 \<and> parseContexts sampleWorld (contentText (fst (getRoomContexts sampleWorld
        (Some (noArgs\<lparr> arg_room_name := Some ''cato-v100'' \<rparr>))))) = Inr sampleContexts
 \<and> (\<exists>stats calls.
      getActiveMetricsSummary sampleWorld
        (Some (noArgs\<lparr> arg_room_name := Some ''cato-v100'', arg_sample_size := Some 0 \<rparr>))
        = Some (\<lparr> content = [ActiveMetricsSummaryReport ''cato-v100'' 0 4 stats 0 0 ''0.0''] \<rparr>,
                calls)
    \<and> (\<exists>s. (''network'', s) \<in> set stats \<and> totalAvailable s = 2 \<and> stat_tested s = 0
          \<and> activeRate s = ''NaN''
          \<and> categoryLine (''network'', s) = ''network        : 0/0 active (NaN%) of 2 available''))"
proof -
  have h: "arg_room_name (noArgs\<lparr> arg_room_name := Some ''cato-v100'', arg_sample_size := Some 0 \<rparr>)
             = Some ''cato-v100''"
    "''cato-v100'' \<noteq> []"
    "arg_sample_size (noArgs\<lparr> arg_room_name := Some ''cato-v100'', arg_sample_size := Some 0 \<rparr>)
       = Some 0"
    "parseContexts sampleWorld (contentText (fst (getRoomContexts sampleWorld
        (Some (noArgs\<lparr> arg_room_name := Some ''cato-v100'' \<rparr>))))) = Inr sampleContexts"
    by (simp_all add: activity_eval)
  have line: "categoryLine (''network'', \<lparr> totalAvailable = 2, stat_tested = 0, stat_active = 0,
                                  activeRate = ''NaN'', stat_error = None \<rparr>)
       = ''network        : 0/0 active (NaN%) of 2 available''"
    by (simp add: categoryLine_def padEnd_def truthy_def showNat.simps decimalDigits_def
          numeral_eq_Suc)
  from zero_sample_size_rate_NaN [OF h] h line show ?thesis
    by (simp add: sample_summary_run)
qed

section \<open>Alarm aggregation\<close>

lemma roomIdToName_listed:
  "roomIdToName roomsData k = Some v \<Longrightarrow> k \<in> set (map cloud_room_id roomsData)"
  by (auto simp: roomIdToName_def dest!: map_of_SomeD)

lemma alarmStep_retained:
  "alarmStep (roomIdToName roomsData) acc e =
     (if e \<in> set (retainedBySpec roomsData [e])
      then (fst acc @ [\<lparr> roomID = entry_roomID e, roomName = ''All nodes'',
                          warnings = warningsOf e, critical = criticalOf e,
                          unreachable = unreachableOf e \<rparr>],
            if 0 < criticalOf e
            then snd acc @ [\<lparr> roomID = entry_roomID e, roomName = ''All nodes'',
                                warnings = warningsOf e, critical = criticalOf e,
                                unreachable = unreachableOf e \<rparr>]
            else snd acc)
      else acc)"
proof (cases "roomIdToName roomsData (entry_roomID e)")
  case None
  then show ?thesis
    by (simp add: alarmStep_def retainedBySpec_def truthy_def)
next
  case (Some v)
  from roomIdToName_listed [OF Some] have "entry_roomID e \<in> cloud_room_id ` set roomsData"
    by simp
  with Some show ?thesis
    by (auto simp: alarmStep_def retainedBySpec_def truthy_def Let_def)
qed

lemma foldl_alarmStep:
  "fst (foldl (alarmStep (roomIdToName roomsData)) acc entries)
     = fst acc @ map (\<lambda>e. \<lparr> roomID = entry_roomID e, roomName = ''All nodes'',
                             warnings = warningsOf e, critical = criticalOf e,
                             unreachable = unreachableOf e \<rparr>)
                   (retainedBySpec roomsData entries)"
proof (induction entries arbitrary: acc)
  case Nil
  show ?case by (simp add: retainedBySpec_def)
next
  case (Cons e entries)
  have split: "retainedBySpec roomsData (e # entries)
      = retainedBySpec roomsData [e] @ retainedBySpec roomsData entries"
    by (simp add: retainedBySpec_def)
  show ?case
    unfolding foldl_Cons Cons.IH split alarmStep_retained [of roomsData acc e]
    by (simp add: retainedBySpec_def)
qed

lemma foldl_sum: "foldl (\<lambda>sum r. sum + f r) a xs = a + sum_list (map f xs)"
  for a :: nat
  by (induction xs arbitrary: a) simp_all

lemma makeCloudRequest_message:
  "fst (makeCloudRequest cfg cloud endpoint) = Inl e \<Longrightarrow> message e \<noteq> []"
  by (auto simp: makeCloudRequest_def axiosGet_def Let_def split: if_splits sum.splits)


text \<open>
  C2.  When both fetches succeed, \<open>roomsWithAlarms\<close> holds, in order, exactly the entries
  of the alarm counters that the retention rule of the specification keeps (a counter
  that is not zero, a room ID in the room list, the resolved name \<open>"All nodes"\<close>), each
  with its three counters; the three totals are the sums of the counters over the
  retained entries and \<open>roomsWithIssues\<close> is their number, while \<open>totalRooms\<close> counts the
  raw entries; and an entry whose room ID the lookup does not resolve is not among the
  rooms with alarms, whatever its counters.
\<close>

theorem alarms_retained_by_sentinel:
  assumes "fst (makeCloudRequest (config w) (cloudAlarms w)
                  (''/spaces/'' @ spaceId (config w) @ ''/alarms'')) = Inr alarmsData"
    and "fst (makeCloudRequest (config w) (cloudRooms w)
                  (''/spaces/'' @ spaceId (config w) @ ''/rooms'')) = Inr roomsData"
    and "entries = (case alarm_results alarmsData of None \<Rightarrow> [] | Some rs \<Rightarrow> rs)"
  shows "roomsWithAlarms (getNetDataAlarms w)
           = map (\<lambda>e. \<lparr> roomID = entry_roomID e, roomName = ''All nodes'',
                         warnings = warningsOf e, critical = criticalOf e,
                         unreachable = unreachableOf e \<rparr>)
               (retainedBySpec roomsData entries)
       \<and> total_warnings (totals (getNetDataAlarms w))
           = sum_list (map warningsOf (retainedBySpec roomsData entries))
       \<and> total_critical (totals (getNetDataAlarms w))
           = sum_list (map criticalOf (retainedBySpec roomsData entries))
       \<and> total_unreachable (totals (getNetDataAlarms w))
           = sum_list (map unreachableOf (retainedBySpec roomsData entries))
       \<and> roomsWithIssues (totals (getNetDataAlarms w)) = length (retainedBySpec roomsData entries)
       \<and> totalRooms (totals (getNetDataAlarms w)) = length entries
       \<and> alarm_error (getNetDataAlarms w) = None
       \<and> (\<forall>e \<in> set entries.
             roomIdToName roomsData (entry_roomID e) = None \<longrightarrow>
             entry_roomID e \<notin> set (map roomID (roomsWithAlarms (getNetDataAlarms w))))"
proof -
  let ?toData = "\<lambda>e. \<lparr> roomID = entry_roomID e, roomName = ''All nodes'',
                         warnings = warningsOf e, critical = criticalOf e,
                         unreachable = unreachableOf e \<rparr>"
  let ?retained = "retainedBySpec roomsData entries"
  have rooms: "roomsWithAlarms (getNetDataAlarms w) = map ?toData ?retained"
    unfolding assms(3) using assms(1,2)
    by (simp add: getNetDataAlarms_def Let_def case_prod_beta foldl_alarmStep)
  have tw: "total_warnings (totals (getNetDataAlarms w)) = sum_list (map warningsOf ?retained)"
    unfolding assms(3) using assms(1,2)
    by (simp add: getNetDataAlarms_def Let_def case_prod_beta foldl_alarmStep foldl_sum comp_def)
  have tc: "total_critical (totals (getNetDataAlarms w)) = sum_list (map criticalOf ?retained)"
    unfolding assms(3) using assms(1,2)
    by (simp add: getNetDataAlarms_def Let_def case_prod_beta foldl_alarmStep foldl_sum comp_def)
  have tu: "total_unreachable (totals (getNetDataAlarms w)) = sum_list (map unreachableOf ?retained)"
    unfolding assms(3) using assms(1,2)
    by (simp add: getNetDataAlarms_def Let_def case_prod_beta foldl_alarmStep foldl_sum comp_def)
  have ri: "roomsWithIssues (totals (getNetDataAlarms w)) = length ?retained"
    unfolding assms(3) using assms(1,2)
    by (simp add: getNetDataAlarms_def Let_def case_prod_beta foldl_alarmStep)
  have tr: "totalRooms (totals (getNetDataAlarms w)) = length entries"
    unfolding assms(3) using assms(1,2)
    by (simp add: getNetDataAlarms_def Let_def case_prod_beta)
  have er: "alarm_error (getNetDataAlarms w) = None"
    using assms(1,2) by (simp add: getNetDataAlarms_def Let_def case_prod_beta)
  have ids: "set (map roomID (roomsWithAlarms (getNetDataAlarms w))) = entry_roomID ` set ?retained"
    unfolding rooms by (simp add: image_image)
  have ex: "\<forall>e \<in> set entries.
             roomIdToName roomsData (entry_roomID e) = None \<longrightarrow>
             entry_roomID e \<notin> set (map roomID (roomsWithAlarms (getNetDataAlarms w)))"
    unfolding ids by (auto simp: retainedBySpec_def)
  from rooms tw tc tu ri tr er ex show ?thesis
    by blast
qed

theorem alarms_retained_by_sentinel_witness:
  "fst (makeCloudRequest (config sampleWorld) (cloudAlarms sampleWorld)
          (''/spaces/'' @ spaceId (config sampleWorld) @ ''/alarms'')) = Inr sampleAlarms
 \<and> fst (makeCloudRequest (config sampleWorld) (cloudRooms sampleWorld)
          (''/spaces/'' @ spaceId (config sampleWorld) @ ''/rooms'')) = Inr sampleRooms
 \<and> roomsWithAlarms (getNetDataAlarms sampleWorld)
      = [\<lparr> roomID = ''r-all'', roomName = ''All nodes'', warnings = 3, critical = 1,
           unreachable = 2 \<rparr>]
 \<and> total_warnings (totals (getNetDataAlarms sampleWorld)) = 3
 \<and> total_critical (totals (getNetDataAlarms sampleWorld)) = 1
 \<and> total_unreachable (totals (getNetDataAlarms sampleWorld)) = 2
 \<and> roomIdToName sampleRooms ''r-gone'' = None
 \<and> ''r-gone'' \<notin> set (map roomID (roomsWithAlarms (getNetDataAlarms sampleWorld)))"
proof -
  have a: "fst (makeCloudRequest (config sampleWorld) (cloudAlarms sampleWorld)
          (''/spaces/'' @ spaceId (config sampleWorld) @ ''/alarms'')) = Inr sampleAlarms"
    and r: "fst (makeCloudRequest (config sampleWorld) (cloudRooms sampleWorld)
          (''/spaces/'' @ spaceId (config sampleWorld) @ ''/rooms'')) = Inr sampleRooms"
    by (simp_all add: makeCloudRequest_def axiosGet_def sampleWorld_def sampleConfig_def truthy_def)
  have e: "(case alarm_results sampleAlarms of None \<Rightarrow> [] | Some rs \<Rightarrow> rs)
             = (case alarm_results sampleAlarms of None \<Rightarrow> [] | Some rs \<Rightarrow> rs)"
    by simp
  have ret: "retainedBySpec sampleRooms
               (case alarm_results sampleAlarms of None \<Rightarrow> [] | Some rs \<Rightarrow> rs)
      = [\<lparr> entry_roomID = ''r-all'',
            alarmCounter = Some \<lparr> counter_warning = Some 3, counter_critical = Some 1 \<rparr>,
            unreachableCount = Some 2 \<rparr>]"
    by (simp add: retainedBySpec_def sampleAlarms_def sampleRooms_def roomIdToName_def
          warningsOf_def criticalOf_def unreachableOf_def)
  have gone: "roomIdToName sampleRooms ''r-gone'' = None"
    by (simp add: roomIdToName_def sampleRooms_def)
  from alarms_retained_by_sentinel [OF a r e] a r gone show ?thesis
    unfolding ret by (simp add: warningsOf_def criticalOf_def unreachableOf_def)
qed

text \<open>
  C3.  \<open>getNetDataAlarms\<close> returns a summary on every path.  When the fetch of the alarm
  counters or the fetch of the room list fails, the summary has all five totals at 0,
  empty lists, and an \<open>error\<close> field holding a non-empty message.
\<close>

theorem alarms_fetch_failure:
  assumes "(\<exists>e. fst (makeCloudRequest (config w) (cloudAlarms w)
                       (''/spaces/'' @ spaceId (config w) @ ''/alarms'')) = Inl e)
         \<or> (\<exists>e. fst (makeCloudRequest (config w) (cloudRooms w)
                       (''/spaces/'' @ spaceId (config w) @ ''/rooms'')) = Inl e)"
  shows "\<exists>m. m \<noteq> []
     \<and> getNetDataAlarms w
         = \<lparr> totals = \<lparr> total_warnings = 0, total_critical = 0, total_unreachable = 0,
                        totalRooms = 0, roomsWithIssues = 0 \<rparr>,
             roomsWithAlarms = [], criticalAlarmDetails = [], allRooms = [],
             alarm_error = Some m \<rparr>"
proof -
  let ?a = "fst (makeCloudRequest (config w) (cloudAlarms w)
                   (''/spaces/'' @ spaceId (config w) @ ''/alarms''))"
  let ?r = "fst (makeCloudRequest (config w) (cloudRooms w)
                   (''/spaces/'' @ spaceId (config w) @ ''/rooms''))"
  from assms obtain e where
    f: "getNetDataAlarms w = failedSummary e" and
    src: "?a = Inl e \<or> ?r = Inl e"
    by (cases ?a; cases ?r) (auto simp: getNetDataAlarms_def)
  from src have "message e \<noteq> []"
    using makeCloudRequest_message [of "config w" "cloudAlarms w"]
      makeCloudRequest_message [of "config w" "cloudRooms w"]
    by blast
  with f show ?thesis
    by (intro exI [of _ "message e"]) (simp add: failedSummary_def)
qed

theorem alarms_fetch_failure_witness:
  "fst (makeCloudRequest (config offlineWorld) (cloudAlarms offlineWorld)
          (''/spaces/'' @ spaceId (config offlineWorld) @ ''/alarms''))
     = Inl (Error ''NetData Cloud API error: connect ECONNREFUSED'')
 \<and> getNetDataAlarms offlineWorld
     = \<lparr> totals = \<lparr> total_warnings = 0, total_critical = 0, total_unreachable = 0,
                    totalRooms = 0, roomsWithIssues = 0 \<rparr>,
         roomsWithAlarms = [], criticalAlarmDetails = [], allRooms = [],
         alarm_error = Some ''NetData Cloud API error: connect ECONNREFUSED'' \<rparr>"
proof -
  have a: "fst (makeCloudRequest (config offlineWorld) (cloudAlarms offlineWorld)
          (''/spaces/'' @ spaceId (config offlineWorld) @ ''/alarms''))
     = Inl (Error ''NetData Cloud API error: connect ECONNREFUSED'')"
    by (simp add: makeCloudRequest_def axiosGet_def offlineWorld_def sampleWorld_def sampleConfig_def truthy_def)
  then have "(\<exists>e. fst (makeCloudRequest (config offlineWorld) (cloudAlarms offlineWorld)
                       (''/spaces/'' @ spaceId (config offlineWorld) @ ''/alarms'')) = Inl e)
         \<or> (\<exists>e. fst (makeCloudRequest (config offlineWorld) (cloudRooms offlineWorld)
                       (''/spaces/'' @ spaceId (config offlineWorld) @ ''/rooms'')) = Inl e)"
    by blast
  from alarms_fetch_failure [OF this] obtain m where
    "getNetDataAlarms offlineWorld
         = \<lparr> totals = \<lparr> total_warnings = 0, total_critical = 0, total_unreachable = 0,
                        totalRooms = 0, roomsWithIssues = 0 \<rparr>,
             roomsWithAlarms = [], criticalAlarmDetails = [], allRooms = [],
             alarm_error = Some m \<rparr>"
    by blast
  moreover have "alarm_error (getNetDataAlarms offlineWorld)
      = Some ''NetData Cloud API error: connect ECONNREFUSED''"
    by (simp add: getNetDataAlarms_def makeCloudRequest_def axiosGet_def offlineWorld_def sampleWorld_def
          sampleConfig_def truthy_def failedSummary_def)
  ultimately show ?thesis
    using a by simp
qed

section \<open>Utilization of provider issues\<close>

lemma percent_not_Unknown: "s @ ''%'' \<noteq> ''Unknown''"
proof
  assume "s @ ''%'' = ''Unknown''"
  then have "last (s @ ''%'') = last ''Unknown''"
    by (simp only:)
  then show False
    by simp
qed

text \<open>
  C7, as the code has it.  For a CPU or memory issue whose \<open>allocated\<close> and \<open>allocatable\<close>
  are both non-empty strings that are not numeric (\<open>Number\<close> of each is \<open>NaN\<close>), the
  utilization is the string \<open>NaN%\<close>: there is no guard against non-numeric input.  The
  utilization is \<open>Unknown\<close> exactly when one of the two fields is absent or falsy.
\<close>

theorem utilization_of_non_numeric:
  "(allocated node = StrField a \<and> allocatable node = StrField b \<and> a \<noteq> [] \<and> b \<noteq> []
      \<and> stringToNumber a = NaN \<and> stringToNumber b = NaN
      \<longrightarrow> utilization node = ''NaN%'')
 \<and> (utilization node = ''Unknown''
      \<longleftrightarrow> \<not> (truthyField (allocated node) \<and> truthyField (allocatable node)))"
  by (auto simp: utilization_def toFixed1_def percent_not_Unknown)

lemmas number_eval = stringToNumber_def trim_def isWhiteSpace_def parseDecimal_def
  parseUnsignedDecimal_def isDigit_def Let_def

theorem utilization_of_non_numeric_witness:
  "allocated \<lparr> allocatable = StrField ''n/a'', allocated = StrField ''unknown'' \<rparr> = StrField ''unknown''
 \<and> ''unknown'' \<noteq> [] \<and> ''n/a'' \<noteq> []
 \<and> stringToNumber ''unknown'' = NaN \<and> stringToNumber ''n/a'' = NaN
 \<and> utilization \<lparr> allocatable = StrField ''n/a'', allocated = StrField ''unknown'' \<rparr> = ''NaN%''
 \<and> utilization \<lparr> allocatable = Absent, allocated = StrField ''unknown'' \<rparr> = ''Unknown''"
proof -
  have n: "stringToNumber ''unknown'' = NaN" "stringToNumber ''n/a'' = NaN"
    by (simp_all add: number_eval)
  from utilization_of_non_numeric
         [of "\<lparr> allocatable = StrField ''n/a'', allocated = StrField ''unknown'' \<rparr>" "''unknown''" "''n/a''"]
       utilization_of_non_numeric
         [of "\<lparr> allocatable = Absent, allocated = StrField ''unknown'' \<rparr>" "''unknown''" "''n/a''"]
       n
  show ?thesis
    by simp
qed

text \<open>
  C7 as stated fails: with \<open>allocated = "abc"\<close> and \<open>allocatable = "xyz"\<close> the utilization
  is \<open>NaN%\<close>, not \<open>Unknown\<close>.
\<close>

theorem utilization_of_non_numeric_counterexample:
  "utilization \<lparr> allocatable = StrField ''xyz'', allocated = StrField ''abc'' \<rparr> = ''NaN%''"
  by (simp add: utilization_def toFixed1_def number_eval)

section \<open>Tool router\<close>

text \<open>
  C4 fails on the code at a registered tool name.  A call of \<open>search_wiki\<close> whose request
  carries no arguments reaches \<open>const { query } = args\<close> with \<open>args\<close> undefined; the
  \<open>TypeError\<close> is thrown before the handler's \<open>try\<close>, passes the routers, and the server
  turns it into a protocol error with the code \<open>InternalError\<close>.  The handlers of the
  NetData service guard the same read with \<open>args || {}\<close>.
\<close>

theorem search_wiki_without_arguments:
  "''search_wiki'' \<in> set github_getToolNames
 \<and> callTool netdataRouter akashRouter gw ''search_wiki'' None
     = Inl (McpError InternalError
         ''Error executing tool search_wiki: Cannot destructure property 'query' of 'args' as it is undefined.'')"
  by (simp add: callTool_def handleToolCall_def github_handleToolCall_def searchWiki_def
        netdata_getToolNames_def akash_getToolNames_def github_getToolNames_def)

text \<open>
  What does hold of the router: a name in no tool list gets the protocol error
  \<open>MethodNotFound\<close>, and a wiki tool called with an arguments object answers with a
  response.
\<close>

lemma unknown_tool_fault:
  assumes "name \<notin> set netdata_getToolNames" "name \<notin> set akash_getToolNames"
    "name \<notin> set github_getToolNames"
  shows "callTool netdataRouter akashRouter gw name args
           = Inl (McpError MethodNotFound (''Unknown tool: '' @ name))"
  using assms by (simp add: callTool_def handleToolCall_def)

lemma github_tools_disjoint:
  "name \<in> set github_getToolNames \<Longrightarrow>
     name \<notin> set netdata_getToolNames \<and> name \<notin> set akash_getToolNames"
  by (auto simp: github_getToolNames_def netdata_getToolNames_def akash_getToolNames_def)

lemma wiki_tool_with_arguments:
  assumes "name \<in> set github_getToolNames"
  shows "\<exists>response. callTool netdataRouter akashRouter gw name (Some a) = Inr response"
proof -
  have "\<exists>response. github_handleToolCall gw name (Some a) = Inr response"
    using assms
    by (auto simp: github_getToolNames_def github_handleToolCall_def searchWiki_def
          getWikiPage_def listRpcNodes_def getWikiPagesList_def Let_def split: sum.splits)
  with github_tools_disjoint [OF assms] assms show ?thesis
    by (auto simp: callTool_def handleToolCall_def)
qed



end
